theory Spec2Isabelle
  imports Main "HOL-Library.Word" "HOL-Library.Signed_Division"
begin

unbundle bit_operations_syntax

text \<open>
  A shallow embedding of the BMP280 driver: the sensor code of \<^verbatim>\<open>bmp280.c\<close> (initialization,
  calibration load, raw reads, fixed-point compensation) and the IIO side of
  \<^verbatim>\<open>bmp280-iio.c\<close> (channel table, reading one channel, the trigger handler). Each C
  function is a HOL function of the same name. The bus is threaded through as the list
  of requests made so far; a function that can fail returns its status as \<open>Inl\<close> and
  its result as \<open>Inr\<close>. The messages written with \<^verbatim>\<open>pr_err\<close> change nothing the
  functions return and are left out.
\<close>

section \<open>Machine types\<close>

text \<open>
  The kernel's fixed-width integers are words: arithmetic wraps modulo the width (the
  kernel is built with \<^verbatim>\<open>-fno-strict-overflow\<close>), \<open>sint\<close> reads a word as two's
  complement, \<open>signed_drop_bit\<close> is the arithmetic right shift that \<^verbatim>\<open>>>\<close> performs on
  a signed operand, \<open>push_bit\<close> is \<^verbatim>\<open><<\<close>, \<open>ucast\<close> widens an unsigned value (or
  truncates), \<open>scast\<close> widens a signed one.
\<close>

type_synonym u8 = "8 word"
type_synonym u16 = "16 word"
type_synonym s32 = "32 word"
type_synonym u32 = "32 word"
type_synonym s64 = "64 word"

text \<open>The status codes the driver returns (as \<^verbatim>\<open>-ENODEV\<close>, \<^verbatim>\<open>-EIO\<close>, \<^verbatim>\<open>-EINVAL\<close>).\<close>

datatype errno = ENODEV | EIO | EINVAL

fun neg_errno :: "errno \<Rightarrow> s32" where
  "neg_errno ENODEV = - 19"
| "neg_errno EIO = - 5"
| "neg_errno EINVAL = - 22"

text \<open>The byte order of the host CPU, which the driver never converts.\<close>

datatype cpu_endianness = LittleEndian | BigEndian

section \<open>The I2C bus (external)\<close>

text \<open>
  The bus transport belongs to the kernel, not to the driver. A client is given by what
  the device answers to each request, which may depend on every request made before; the
  state of the bus is the list of the requests made so far.
  A byte read answers the \<^verbatim>\<open>s32\<close> that \<^verbatim>\<open>i2c_smbus_read_byte_data\<close> returns (the byte,
  or a negative status), a byte write the \<^verbatim>\<open>s32\<close> that \<^verbatim>\<open>i2c_smbus_write_byte_data\<close>
  returns (zero, or a negative status), a block read either a negative status or the bytes
  transferred.
\<close>

datatype bus_request =
    ReadByteData u8
  | WriteByteData u8 u8
  | ReadBlockData u8 nat

datatype block_reply = BlockErr s32 | BlockData "u8 list"

record i2c_client =
  read_byte_reply :: "bus_request list \<Rightarrow> u8 \<Rightarrow> s32"
  write_byte_reply :: "bus_request list \<Rightarrow> u8 \<Rightarrow> u8 \<Rightarrow> s32"
  read_block_reply :: "bus_request list \<Rightarrow> u8 \<Rightarrow> nat \<Rightarrow> block_reply"

definition i2c_smbus_read_byte_data ::
  "i2c_client \<Rightarrow> u8 \<Rightarrow> bus_request list \<Rightarrow> s32 \<times> bus_request list" where
  "i2c_smbus_read_byte_data cl command h =
     (read_byte_reply cl h command, h @ [ReadByteData command])"

definition i2c_smbus_write_byte_data ::
  "i2c_client \<Rightarrow> u8 \<Rightarrow> u8 \<Rightarrow> bus_request list \<Rightarrow> s32 \<times> bus_request list" where
  "i2c_smbus_write_byte_data cl command v h =
     (write_byte_reply cl h command v, h @ [WriteByteData command v])"

text \<open>
  A block read stores the bytes it received (at most \<open>len\<close> of them) at the start of the
  caller's buffer and returns their number; on a failure it returns the status and leaves
  the buffer alone.
\<close>

definition i2c_smbus_read_i2c_block_data ::
  "i2c_client \<Rightarrow> u8 \<Rightarrow> nat \<Rightarrow> u8 list \<Rightarrow> bus_request list
     \<Rightarrow> (s32 \<times> u8 list) \<times> bus_request list" where
  "i2c_smbus_read_i2c_block_data cl command len values h =
     (case read_block_reply cl h command len of
        BlockErr e \<Rightarrow> ((e, values), h @ [ReadBlockData command len])
      | BlockData bs \<Rightarrow>
          (let got = take len bs
           in ((of_nat (length got), got @ drop (length got) values),
               h @ [ReadBlockData command len])))"

section \<open>bmp280.h\<close>

definition BMP280_ID :: u8 where "BMP280_ID = 0x58"
definition BMP280_ID_REG :: u8 where "BMP280_ID_REG = 0xD0"
definition BMP280_CTRL_MEAS_REG_ADDRESS :: u8 where "BMP280_CTRL_MEAS_REG_ADDRESS = 0xf4"
definition BMP280_CONFIG_REG_ADDRESS :: u8 where "BMP280_CONFIG_REG_ADDRESS = 0xf5"
definition BMP280_TEMP_CALIBRATION_BASE_REG_ADDRESS :: u8 where
  "BMP280_TEMP_CALIBRATION_BASE_REG_ADDRESS = 0x88"
definition BMP280_TEMP_RAW_REG_ADDRESS :: u8 where "BMP280_TEMP_RAW_REG_ADDRESS = 0xfa"
definition BMP280_PRESS_CALIBRATION_BASE_REG_ADDRESS :: u8 where
  "BMP280_PRESS_CALIBRATION_BASE_REG_ADDRESS = 0x8e"
definition BMP280_PRESS_RAW_REG_ADDRESS :: u8 where "BMP280_PRESS_RAW_REG_ADDRESS = 0xf7"

text \<open>
  \<^verbatim>\<open>struct bmp280_ctx\<close>: the client, \<^verbatim>\<open>s32 dig_T[4]\<close> and \<^verbatim>\<open>s64 dig_P[10]\<close>. The arrays
  are lists; a context is well formed when they have the declared lengths.
\<close>

record bmp280_ctx =
  client :: i2c_client
  dig_T :: "s32 list"
  dig_P :: "s64 list"

definition ctx_wf :: "bmp280_ctx \<Rightarrow> bool" where
  "ctx_wf bmp280 = (length (dig_T bmp280) = 4 \<and> length (dig_P bmp280) = 10)"

section \<open>bmp280.c\<close>

subsection \<open>Initialization\<close>

text \<open>
  \<^verbatim>\<open>initialize_bmp280\<close>. The identity read is stored in a \<^verbatim>\<open>u8\<close>, so a negative status
  is truncated to its low byte before the comparison. The values returned by the two
  configuration writes are not looked at.
\<close>

definition initialize_bmp280 ::
  "bmp280_ctx \<Rightarrow> bus_request list \<Rightarrow> (errno + unit) \<times> bus_request list" where
  "initialize_bmp280 bmp280 h =
     (let (r, h1) = i2c_smbus_read_byte_data (client bmp280) BMP280_ID_REG h;
          sensor_id = (ucast r :: u8)
      in if sensor_id \<noteq> BMP280_ID then (Inl ENODEV, h1)
         else
           (let osrs_t = (0x5 :: u8);
                osrs_p = (0x5 :: u8);
                mode = (0x3 :: u8);
                t_sb = (0x5 :: u8);
                filter = (0x0 :: u8);
                spi3w_en = (0x0 :: u8);
                ctrl_meas = (ucast (push_bit 5 (ucast osrs_t :: s32)
                                    OR push_bit 2 (ucast osrs_p :: s32)
                                    OR (ucast mode :: s32)) :: u8);
                config = (ucast (push_bit 5 (ucast t_sb :: s32)
                                 OR push_bit 2 (ucast filter :: s32)
                                 OR (ucast spi3w_en :: s32)) :: u8);
                (w1, h2) = i2c_smbus_write_byte_data (client bmp280)
                             BMP280_CONFIG_REG_ADDRESS config h1;
                (w2, h3) = i2c_smbus_write_byte_data (client bmp280)
                             BMP280_CTRL_MEAS_REG_ADDRESS ctrl_meas h2
            in (Inr (), h3)))"

subsection \<open>Calibration values\<close>

text \<open>
  The block reads fill \<^verbatim>\<open>u16\<close> arrays through a \<^verbatim>\<open>u8 *\<close>: element \<open>k\<close> of the array is
  made of bytes \<open>2k\<close> and \<open>2k+1\<close> in the byte order of the host.
\<close>

definition u16_of_bytes :: "cpu_endianness \<Rightarrow> u8 \<Rightarrow> u8 \<Rightarrow> u16" where
  "u16_of_bytes cpu b0 b1 =
     (case cpu of
        LittleEndian \<Rightarrow> push_bit 8 (ucast b1) OR ucast b0
      | BigEndian \<Rightarrow> push_bit 8 (ucast b0) OR ucast b1)"

fun u16_array :: "cpu_endianness \<Rightarrow> u8 list \<Rightarrow> u16 list" where
  "u16_array cpu (b0 # b1 # bs) = u16_of_bytes cpu b0 b1 # u16_array cpu bs"
| "u16_array cpu bs = []"

text \<open>One turn of each of the two loops of \<^verbatim>\<open>read_bmp280_calibration_values\<close>.\<close>

definition store_dig_T :: "u16 list \<Rightarrow> nat \<Rightarrow> s32 list \<Rightarrow> s32 list" where
  "store_dig_T temp_calib_buffer i dT =
     (let dT1 = dT[i := ucast (temp_calib_buffer ! (i - 1))]
      in if i \<noteq> 1 \<and> 32767 <s dT1 ! i then dT1[i := dT1 ! i - 65536] else dT1)"

definition store_dig_P :: "u16 list \<Rightarrow> nat \<Rightarrow> s64 list \<Rightarrow> s64 list" where
  "store_dig_P press_calib_buffer i dP =
     (let dP1 = dP[i := ucast (press_calib_buffer ! (i - 1))]
      in if i \<noteq> 1 \<and> 32767 <s dP1 ! i then dP1[i := dP1 ! i - 65536] else dP1)"

text \<open>
  \<^verbatim>\<open>read_bmp280_calibration_values\<close>. The two buffers are uninitialised in the source;
  they are read only after a block read has overwritten all of their bytes, so their
  first content (zeros here) is never seen.
\<close>

definition read_bmp280_calibration_values ::
  "cpu_endianness \<Rightarrow> bmp280_ctx \<Rightarrow> bus_request list
     \<Rightarrow> (errno + bmp280_ctx) \<times> bus_request list" where
  "read_bmp280_calibration_values cpu bmp280 h =
     (let ((rd, tbytes), h1) = i2c_smbus_read_i2c_block_data (client bmp280)
             BMP280_TEMP_CALIBRATION_BASE_REG_ADDRESS (3 * 2) (replicate 6 0) h
      in if rd \<noteq> 3 * 2 then (Inl EIO, h1)
         else
           (let ((rd2, pbytes), h2) = i2c_smbus_read_i2c_block_data (client bmp280)
                   BMP280_PRESS_CALIBRATION_BASE_REG_ADDRESS (9 * 2) (replicate 18 0) h1
            in if rd2 \<noteq> 9 * 2 then (Inl EIO, h2)
               else
                 (let temp_calib_buffer = u16_array cpu tbytes;
                      press_calib_buffer = u16_array cpu pbytes;
                      dT0 = (dig_T bmp280)[0 := 0];
                      dP0 = (dig_P bmp280)[0 := 0];
                      dT = fold (store_dig_T temp_calib_buffer) [1..<4] dT0;
                      dP = fold (store_dig_P press_calib_buffer) [1..<10] dP0
                  in (Inr (bmp280\<lparr>dig_T := dT, dig_P := dP\<rparr>), h2))))"

text \<open>\<^verbatim>\<open>setup_bmp280\<close>.\<close>

definition setup_bmp280 ::
  "cpu_endianness \<Rightarrow> i2c_client \<Rightarrow> bmp280_ctx \<Rightarrow> bus_request list
     \<Rightarrow> (errno + bmp280_ctx) \<times> bus_request list" where
  "setup_bmp280 cpu cl bmp280_0 h =
     (let bmp280 = bmp280_0\<lparr>client := cl\<rparr>
      in case initialize_bmp280 bmp280 h of
           (Inl status, h1) \<Rightarrow> (Inl status, h1)
         | (Inr u, h1) \<Rightarrow>
             (case read_bmp280_calibration_values cpu bmp280 h1 of
                (Inl status, h2) \<Rightarrow> (Inl status, h2)
              | (Inr bmp280', h2) \<Rightarrow> (Inr bmp280', h2)))"

subsection \<open>Raw values\<close>

definition read_bmp280_raw_temperature ::
  "bmp280_ctx \<Rightarrow> bus_request list \<Rightarrow> (errno + s32) \<times> bus_request list" where
  "read_bmp280_raw_temperature bmp280 h =
     (let ((rd, values), h1) = i2c_smbus_read_i2c_block_data (client bmp280)
             BMP280_TEMP_RAW_REG_ADDRESS 3 [0, 0, 0] h
      in if rd \<noteq> 3 then (Inl EIO, h1)
         else
           (let val1 = (ucast (values ! 0) :: s32);
                val2 = (ucast (values ! 1) :: s32);
                val3 = (ucast (values ! 2) :: s32)
            in (Inr (push_bit 16 val1 OR push_bit 8 val2 OR val3), h1)))"

definition read_bmp280_raw_pressure ::
  "bmp280_ctx \<Rightarrow> bus_request list \<Rightarrow> (errno + s32) \<times> bus_request list" where
  "read_bmp280_raw_pressure bmp280 h =
     (let ((rd, values), h1) = i2c_smbus_read_i2c_block_data (client bmp280)
             BMP280_PRESS_RAW_REG_ADDRESS 3 [0, 0, 0] h
      in if rd \<noteq> 3 then (Inl EIO, h1)
         else
           (let val1 = (ucast (values ! 0) :: s32);
                val2 = (ucast (values ! 1) :: s32);
                val3 = (ucast (values ! 2) :: s32)
            in (Inr (push_bit 16 val1 OR push_bit 8 val2 OR val3), h1)))"

subsection \<open>Compensation\<close>

text \<open>\<^verbatim>\<open>compute_bmp280_t_fine\<close>: every operand and the result are \<^verbatim>\<open>s32\<close>.\<close>

definition compute_bmp280_t_fine :: "s32 \<Rightarrow> s32 list \<Rightarrow> s32" where
  "compute_bmp280_t_fine raw_temp dT =
     (let var1 = signed_drop_bit 11
                   ((signed_drop_bit 3 raw_temp - push_bit 1 (dT ! 1)) * dT ! 2);
          var2 = signed_drop_bit 14
                   (signed_drop_bit 12
                      ((signed_drop_bit 4 raw_temp - dT ! 1)
                       * (signed_drop_bit 4 raw_temp - dT ! 1))
                    * dT ! 3)
      in var1 + var2)"

definition read_bmp280_processed_temperature ::
  "bmp280_ctx \<Rightarrow> bus_request list \<Rightarrow> (errno + s32) \<times> bus_request list" where
  "read_bmp280_processed_temperature bmp280 h =
     (case read_bmp280_raw_temperature bmp280 h of
        (Inl status, h1) \<Rightarrow> (Inl status, h1)
      | (Inr raw_temp0, h1) \<Rightarrow>
          (let raw_temp = signed_drop_bit 4 raw_temp0
           in (Inr (signed_drop_bit 8
                      (compute_bmp280_t_fine raw_temp (dig_T bmp280) * 5 + 128)), h1)))"

text \<open>
  The pressure formula works on \<^verbatim>\<open>s64\<close>. Its two intermediates before the division are
  given names here so that statements can speak about them: \<open>pressure_var2\<close> is \<^verbatim>\<open>var2\<close>
  after line 231 and \<open>pressure_var1\<close> is \<^verbatim>\<open>var1\<close> after line 234 (the divisor), both
  as functions of \<^verbatim>\<open>t_fine\<close> and \<^verbatim>\<open>dig_P\<close>.
\<close>

definition pressure_var2 :: "s64 \<Rightarrow> s64 list \<Rightarrow> s64" where
  "pressure_var2 t_fine dP =
     (let var1 = t_fine - 128000;
          var2 = var1 * var1 * dP ! 6;
          var2 = var2 + push_bit 17 (var1 * dP ! 5);
          var2 = var2 + push_bit 35 (dP ! 4)
      in var2)"

definition pressure_var1 :: "s64 \<Rightarrow> s64 list \<Rightarrow> s64" where
  "pressure_var1 t_fine dP =
     (let var1 = t_fine - 128000;
          var1 = signed_drop_bit 8 (var1 * var1 * dP ! 3) + push_bit 12 (var1 * dP ! 2);
          var1 = signed_drop_bit 33 ((push_bit 47 1 + var1) * dP ! 1)
      in var1)"

text \<open>
  The \<^verbatim>\<open>/\<close> of C on \<^verbatim>\<open>s64\<close>: the quotient is truncated towards zero. A zero divisor
  has no result (the CPU raises a divide error and the caller never continues): that is
  \<open>None\<close>. The one quotient that does not fit, of the least \<^verbatim>\<open>s64\<close> by \<open>-1\<close>, is
  reduced modulo \<open>2 ^ 64\<close> like the rest of the arithmetic.
\<close>

definition div_s64 :: "s64 \<Rightarrow> s64 \<Rightarrow> s64 option" where
  "div_s64 a b = (if b = 0 then None else Some (word_of_int (sint a sdiv sint b)))"

text \<open>
  \<^verbatim>\<open>read_bmp280_processed_pressure\<close>. The result is \<open>None\<close> when the function does not
  return (a division by zero), otherwise the status or the pressure. \<^verbatim>\<open>values[6]\<close> is
  uninitialised in the source and read only after all six bytes were overwritten.
\<close>

definition read_bmp280_processed_pressure ::
  "bmp280_ctx \<Rightarrow> bus_request list \<Rightarrow> (errno + u32) option \<times> bus_request list" where
  "read_bmp280_processed_pressure bmp280 h =
     (let ((rd, values), h1) = i2c_smbus_read_i2c_block_data (client bmp280)
             BMP280_PRESS_RAW_REG_ADDRESS 6 (replicate 6 0) h
      in if rd \<noteq> 6 then (Some (Inl EIO), h1)
         else
           (let p1 = (ucast (values ! 0) :: s32);
                p2 = (ucast (values ! 1) :: s32);
                p3 = (ucast (values ! 2) :: s32);
                raw_press = push_bit 16 p1 OR push_bit 8 p2 OR p3;
                t1 = (ucast (values ! 3) :: s32);
                t2 = (ucast (values ! 4) :: s32);
                t3 = (ucast (values ! 5) :: s32);
                raw_temp = push_bit 16 t1 OR push_bit 8 t2 OR t3;
                raw_press = signed_drop_bit 4 raw_press;
                raw_temp = signed_drop_bit 4 raw_temp;
                t_fine = (scast (compute_bmp280_t_fine raw_temp (dig_T bmp280)) :: s64);
                var2 = pressure_var2 t_fine (dig_P bmp280);
                var1 = pressure_var1 t_fine (dig_P bmp280)
            in if var1 = 0 then (Some (Inr 0), h1)
               else
                 (let p = (scast (1048576 - raw_press) :: s64)
                  in case div_s64 ((push_bit 31 p - var2) * 3125) var1 of
                       None \<Rightarrow> (None, h1)
                     | Some p \<Rightarrow>
                         (let var1 = signed_drop_bit 25
                                       (dig_P bmp280 ! 9 * signed_drop_bit 13 p
                                        * signed_drop_bit 13 p);
                              var2 = signed_drop_bit 19 (dig_P bmp280 ! 8 * p);
                              p = signed_drop_bit 8 (p + var1 + var2)
                                  + push_bit 4 (dig_P bmp280 ! 7)
                          in (Some (Inr (ucast p)), h1)))))"

section \<open>bmp280-iio.c\<close>

subsection \<open>Channels\<close>

text \<open>
  The parts of \<^verbatim>\<open>struct iio_chan_spec\<close> the driver sets or reads. \<^verbatim>\<open>info_mask_separate\<close>
  is a bit mask over the numbers of \<^verbatim>\<open>enum iio_chan_info_enum\<close>; the three other info
  masks of the kernel's structure are never set by the driver and stay zero, so
  \<^verbatim>\<open>iio_channel_has_info\<close> tests this mask alone. A designated initialiser leaves the
  members it does not name at zero. The member \<^verbatim>\<open>output\<close> is \<open>is_output\<close> here.
\<close>

datatype iio_chan_type = IIO_VOLTAGE | IIO_CURRENT | IIO_TEMP | IIO_PRESSURE

datatype iio_endian = IIO_CPU | IIO_BE | IIO_LE

definition IIO_CHAN_INFO_RAW :: nat where "IIO_CHAN_INFO_RAW = 0"
definition IIO_CHAN_INFO_PROCESSED :: nat where "IIO_CHAN_INFO_PROCESSED = 1"

definition BIT :: "nat \<Rightarrow> nat" where "BIT n = 2 ^ n"

record iio_scan_type =
  sign :: char
  realbits :: nat
  storagebits :: nat
  shift :: nat
  endianness :: iio_endian

record iio_chan_spec =
  type :: iio_chan_type
  indexed :: bool
  channel :: int
  address :: nat
  info_mask_separate :: nat
  scan_index :: int
  scan_type :: iio_scan_type
  is_output :: bool

definition iio_channel_has_info :: "iio_chan_spec \<Rightarrow> nat \<Rightarrow> bool" where
  "iio_channel_has_info chan t = (info_mask_separate chan AND BIT t \<noteq> 0)"

text \<open>The macro \<^verbatim>\<open>BMP280_CALIBR_CHANNNEL\<close>.\<close>

definition BMP280_CALIBR_CHANNNEL ::
  "iio_chan_type \<Rightarrow> int \<Rightarrow> int \<Rightarrow> char \<Rightarrow> nat \<Rightarrow> iio_chan_spec" where
  "BMP280_CALIBR_CHANNNEL t idx sidx sg addr =
     \<lparr> type = t, indexed = True, channel = idx, address = addr,
       info_mask_separate = BIT IIO_CHAN_INFO_RAW, scan_index = sidx,
       scan_type = \<lparr> sign = sg, realbits = 16, storagebits = 16, shift = 0,
                     endianness = IIO_CPU \<rparr>,
       is_output = False \<rparr>"

definition bmp280_iio_channels :: "iio_chan_spec list" where
  "bmp280_iio_channels =
     [ BMP280_CALIBR_CHANNNEL IIO_TEMP 0 0 CHR ''u''
         (unat BMP280_TEMP_CALIBRATION_BASE_REG_ADDRESS),
       BMP280_CALIBR_CHANNNEL IIO_TEMP 1 1 CHR ''s''
         (unat BMP280_TEMP_CALIBRATION_BASE_REG_ADDRESS + 2),
       BMP280_CALIBR_CHANNNEL IIO_TEMP 2 2 CHR ''s''
         (unat BMP280_TEMP_CALIBRATION_BASE_REG_ADDRESS + 4),
       \<lparr> type = IIO_TEMP, indexed = True, channel = 3,
         address = unat BMP280_TEMP_RAW_REG_ADDRESS,
         info_mask_separate = BIT IIO_CHAN_INFO_RAW, scan_index = 3,
         scan_type = \<lparr> sign = CHR ''s'', realbits = 20, storagebits = 32, shift = 4,
                       endianness = IIO_CPU \<rparr>,
         is_output = False \<rparr>,
       \<lparr> type = IIO_TEMP, indexed = False, channel = 0, address = 0,
         info_mask_separate = BIT IIO_CHAN_INFO_PROCESSED, scan_index = 4,
         scan_type = \<lparr> sign = CHR ''s'', realbits = 32, storagebits = 32, shift = 0,
                       endianness = IIO_CPU \<rparr>,
         is_output = False \<rparr>,
       BMP280_CALIBR_CHANNNEL IIO_PRESSURE 0 5 CHR ''u''
         (unat BMP280_PRESS_CALIBRATION_BASE_REG_ADDRESS),
       BMP280_CALIBR_CHANNNEL IIO_PRESSURE 1 6 CHR ''s''
         (unat BMP280_PRESS_CALIBRATION_BASE_REG_ADDRESS + 2),
       BMP280_CALIBR_CHANNNEL IIO_PRESSURE 2 7 CHR ''s''
         (unat BMP280_PRESS_CALIBRATION_BASE_REG_ADDRESS + 4),
       BMP280_CALIBR_CHANNNEL IIO_PRESSURE 3 8 CHR ''s''
         (unat BMP280_PRESS_CALIBRATION_BASE_REG_ADDRESS + 6),
       BMP280_CALIBR_CHANNNEL IIO_PRESSURE 4 9 CHR ''s''
         (unat BMP280_PRESS_CALIBRATION_BASE_REG_ADDRESS + 8),
       BMP280_CALIBR_CHANNNEL IIO_PRESSURE 5 10 CHR ''s''
         (unat BMP280_PRESS_CALIBRATION_BASE_REG_ADDRESS + 10),
       BMP280_CALIBR_CHANNNEL IIO_PRESSURE 6 11 CHR ''s''
         (unat BMP280_PRESS_CALIBRATION_BASE_REG_ADDRESS + 12),
       BMP280_CALIBR_CHANNNEL IIO_PRESSURE 7 12 CHR ''s''
         (unat BMP280_PRESS_CALIBRATION_BASE_REG_ADDRESS + 14),
       BMP280_CALIBR_CHANNNEL IIO_PRESSURE 8 13 CHR ''s''
         (unat BMP280_PRESS_CALIBRATION_BASE_REG_ADDRESS + 16),
       \<lparr> type = IIO_PRESSURE, indexed = True, channel = 9,
         address = unat BMP280_PRESS_RAW_REG_ADDRESS,
         info_mask_separate = BIT IIO_CHAN_INFO_RAW, scan_index = 14,
         scan_type = \<lparr> sign = CHR ''s'', realbits = 20, storagebits = 32, shift = 4,
                       endianness = IIO_CPU \<rparr>,
         is_output = False \<rparr>,
       \<lparr> type = IIO_PRESSURE, indexed = False, channel = 0, address = 0,
         info_mask_separate = BIT IIO_CHAN_INFO_PROCESSED, scan_index = 15,
         scan_type = \<lparr> sign = CHR ''u'', realbits = 32, storagebits = 32, shift = 0,
                       endianness = IIO_CPU \<rparr>,
         is_output = False \<rparr> ]"

subsection \<open>Reading one channel\<close>

text \<open>
  What \<^verbatim>\<open>bmp280_iio_read_from_channel\<close> hands back on success: the return value
  \<^verbatim>\<open>IIO_VAL_INT\<close> with \<^verbatim>\<open>*val\<close>, or \<^verbatim>\<open>IIO_VAL_FRACTIONAL\<close> with \<^verbatim>\<open>*val\<close> and \<^verbatim>\<open>*val2\<close>.
  On a failure it returns the negative status and leaves both alone.
\<close>

datatype iio_val = IIO_VAL_INT s32 | IIO_VAL_FRACTIONAL s32 s32

fun val_of :: "iio_val \<Rightarrow> s32" where
  "val_of (IIO_VAL_INT v) = v"
| "val_of (IIO_VAL_FRACTIONAL v v2) = v"

text \<open>
  \<^verbatim>\<open>bmp280_iio_read_from_channel\<close>. \<open>None\<close> is handed on from the pressure computation
  (no return). An \<^verbatim>\<open>s64\<close> calibration value and the \<^verbatim>\<open>u32\<close> pressure are converted to
  \<^verbatim>\<open>int\<close> by the assignment to \<^verbatim>\<open>*val\<close>.
\<close>

definition bmp280_iio_read_from_channel ::
  "bmp280_ctx \<Rightarrow> iio_chan_spec \<Rightarrow> bus_request list
     \<Rightarrow> (errno + iio_val) option \<times> bus_request list" where
  "bmp280_iio_read_from_channel bmp280 chan h =
     (if type chan = IIO_TEMP then
        (if iio_channel_has_info chan IIO_CHAN_INFO_RAW \<and> indexed chan
              \<and> 0 \<le> channel chan \<and> channel chan < 3
         then (Some (Inr (IIO_VAL_INT (dig_T bmp280 ! nat (channel chan + 1)))), h)
         else if iio_channel_has_info chan IIO_CHAN_INFO_RAW \<and> indexed chan
              \<and> channel chan = 3
         then (case read_bmp280_raw_temperature bmp280 h of
                 (Inl status, h1) \<Rightarrow> (Some (Inl status), h1)
               | (Inr raw_temp, h1) \<Rightarrow> (Some (Inr (IIO_VAL_INT raw_temp)), h1))
         else if iio_channel_has_info chan IIO_CHAN_INFO_PROCESSED
         then (case read_bmp280_processed_temperature bmp280 h of
                 (Inl status, h1) \<Rightarrow> (Some (Inl status), h1)
               | (Inr temp, h1) \<Rightarrow> (Some (Inr (IIO_VAL_FRACTIONAL temp 100)), h1))
         else (Some (Inl EINVAL), h))
      else if type chan = IIO_PRESSURE then
        (if iio_channel_has_info chan IIO_CHAN_INFO_RAW \<and> indexed chan
              \<and> 0 \<le> channel chan \<and> channel chan < 9
         then (Some (Inr (IIO_VAL_INT (ucast (dig_P bmp280 ! nat (channel chan + 1))))), h)
         else if iio_channel_has_info chan IIO_CHAN_INFO_RAW \<and> indexed chan
              \<and> channel chan = 9
         then (case read_bmp280_raw_pressure bmp280 h of
                 (Inl status, h1) \<Rightarrow> (Some (Inl status), h1)
               | (Inr raw_press, h1) \<Rightarrow> (Some (Inr (IIO_VAL_INT raw_press)), h1))
         else if iio_channel_has_info chan IIO_CHAN_INFO_PROCESSED
         then (case read_bmp280_processed_pressure bmp280 h of
                 (None, h1) \<Rightarrow> (None, h1)
               | (Some (Inl status), h1) \<Rightarrow> (Some (Inl status), h1)
               | (Some (Inr press), h1) \<Rightarrow> (Some (Inr (IIO_VAL_FRACTIONAL press 256)), h1))
         else (Some (Inl EINVAL), h))
      else (Some (Inl EINVAL), h))"

text \<open>\<^verbatim>\<open>bmp280_iio_read_raw\<close>, the direct read: the \<^verbatim>\<open>mask\<close> argument (\<open>info\<close>) is not used.\<close>

definition bmp280_iio_read_raw ::
  "bmp280_ctx \<Rightarrow> iio_chan_spec \<Rightarrow> nat \<Rightarrow> bus_request list
     \<Rightarrow> (errno + iio_val) option \<times> bus_request list" where
  "bmp280_iio_read_raw bmp280 chan info h = bmp280_iio_read_from_channel bmp280 chan h"

subsection \<open>The trigger handler\<close>

text \<open>
  The parts of \<^verbatim>\<open>struct iio_dev\<close> the handler reads. \<^verbatim>\<open>active_scan_mask\<close> is a bitmap and
  \<^verbatim>\<open>scan_bytes\<close> the size of one sample; both are set by the IIO core, not by the
  driver. \<open>priv\<close> is the driver's context (\<^verbatim>\<open>iio_priv\<close>).
\<close>

record iio_dev =
  channels :: "iio_chan_spec list"
  num_channels :: nat
  active_scan_mask :: nat
  scan_bytes :: nat
  priv :: bmp280_ctx

text \<open>
  What the kernel around the handler decides: the byte order of the CPU, whether
  \<^verbatim>\<open>kzalloc\<close> finds memory, and the status \<^verbatim>\<open>iio_push_to_buffers\<close> returns for a buffer.
\<close>

record kernel =
  cpu :: cpu_endianness
  kzalloc_succeeds :: bool
  iio_push_to_buffers_status :: "u8 list \<Rightarrow> s32"

datatype irqreturn = IRQ_NONE | IRQ_HANDLED | IRQ_WAKE_THREAD

text \<open>The calls the handler makes into the kernel, in the order it makes them.\<close>

datatype event = Push "u8 list" | Kfree | NotifyDone

text \<open>A 16-bit and a 32-bit cell as the bytes a store of the host leaves in memory.\<close>

definition bytes_of_u16 :: "cpu_endianness \<Rightarrow> u16 \<Rightarrow> u8 list" where
  "bytes_of_u16 c w =
     (case c of
        LittleEndian \<Rightarrow> [ucast w, ucast (drop_bit 8 w)]
      | BigEndian \<Rightarrow> [ucast (drop_bit 8 w), ucast w])"

definition bytes_of_u32 :: "cpu_endianness \<Rightarrow> u32 \<Rightarrow> u8 list" where
  "bytes_of_u32 c w =
     (case c of
        LittleEndian \<Rightarrow>
          [ucast w, ucast (drop_bit 8 w), ucast (drop_bit 16 w), ucast (drop_bit 24 w)]
      | BigEndian \<Rightarrow>
          [ucast (drop_bit 24 w), ucast (drop_bit 16 w), ucast (drop_bit 8 w), ucast w])"

text \<open>
  A store through \<^verbatim>\<open>data_ptr\<close>, which is \<open>off\<close> bytes into the allocation \<open>data\<close>. A
  store that does not fit in the allocation has no defined result.
\<close>

definition store_bytes :: "nat \<Rightarrow> u8 list \<Rightarrow> u8 list \<Rightarrow> u8 list option" where
  "store_bytes off bs data =
     (if off + length bs \<le> length data
      then Some (take off data @ bs @ drop (off + length bs) data)
      else None)"

text \<open>
  The loop of the handler over the set bits of the mask, given as the list of their
  positions. It ends in one of three ways: it ran through (with the buffer and
  \<^verbatim>\<open>data_ptr\<close>), it jumped to \<^verbatim>\<open>free_data\<close>, or it has no defined result (a read that
  did not return, or a store outside the allocation). The return value of a read is
  negative exactly when it is a status, so \<^verbatim>\<open>status < 0\<close> is the case \<open>Inl\<close>. The
  \<^verbatim>\<open>s16\<close> and \<^verbatim>\<open>u16\<close> stores of the same \<^verbatim>\<open>int\<close> leave the same bytes, as do the \<^verbatim>\<open>s32\<close>
  and \<^verbatim>\<open>u32\<close> stores.
\<close>

datatype loop_exit = RanThrough "u8 list" nat | GotoFreeData | NoResult

fun scan_loop ::
  "cpu_endianness \<Rightarrow> iio_dev \<Rightarrow> nat list \<Rightarrow> u8 list \<Rightarrow> nat \<Rightarrow> bus_request list
     \<Rightarrow> loop_exit \<times> bus_request list" where
  "scan_loop c indio_dev [] data data_ptr h = (RanThrough data data_ptr, h)"
| "scan_loop c indio_dev (i # rest) data data_ptr h =
     (let chan = channels indio_dev ! i
      in case bmp280_iio_read_from_channel (priv indio_dev) chan h of
           (None, h1) \<Rightarrow> (NoResult, h1)
         | (Some (Inl status), h1) \<Rightarrow> (GotoFreeData, h1)
         | (Some (Inr r), h1) \<Rightarrow>
             (let val = val_of r
              in if storagebits (scan_type chan) = 16 then
                   (case store_bytes data_ptr
                           (if sign (scan_type chan) = CHR ''s''
                            then bytes_of_u16 c (ucast val)
                            else bytes_of_u16 c (ucast val)) data of
                      None \<Rightarrow> (NoResult, h1)
                    | Some data' \<Rightarrow> scan_loop c indio_dev rest data' (data_ptr + 2) h1)
                 else if storagebits (scan_type chan) = 32 then
                   (case store_bytes data_ptr
                           (if sign (scan_type chan) = CHR ''s''
                            then bytes_of_u32 c val
                            else bytes_of_u32 c val) data of
                      None \<Rightarrow> (NoResult, h1)
                    | Some data' \<Rightarrow> scan_loop c indio_dev rest data' (data_ptr + 4) h1)
                 else (GotoFreeData, h1)))"

text \<open>\<^verbatim>\<open>for_each_set_bit\<close>: the positions below \<open>n\<close> whose bit is set, ascending.\<close>

definition set_bits :: "nat \<Rightarrow> nat \<Rightarrow> nat list" where
  "set_bits bitmap n = filter (bit bitmap) [0..<n]"

text \<open>
  \<^verbatim>\<open>bmp280_iio_trigger_handler\<close>: the value it returns, the calls it made into the
  kernel and the bus afterwards; \<open>None\<close> when the loop has no defined result.
\<close>

definition bmp280_iio_trigger_handler ::
  "kernel \<Rightarrow> iio_dev \<Rightarrow> bus_request list
     \<Rightarrow> (irqreturn \<times> event list \<times> bus_request list) option" where
  "bmp280_iio_trigger_handler k indio_dev h =
     (if \<not> kzalloc_succeeds k then Some (IRQ_HANDLED, [NotifyDone], h)
      else
        (let data = replicate (scan_bytes indio_dev) 0
         in case scan_loop (cpu k) indio_dev
                   (set_bits (active_scan_mask indio_dev) (num_channels indio_dev))
                   data 0 h of
              (NoResult, h1) \<Rightarrow> None
            | (GotoFreeData, h1) \<Rightarrow> Some (IRQ_HANDLED, [Kfree, NotifyDone], h1)
            | (RanThrough data' data_ptr, h1) \<Rightarrow>
                (let status = iio_push_to_buffers_status k data'
                 in if status \<noteq> 0
                    then Some (IRQ_HANDLED, [Push data', Kfree, NotifyDone], h1)
                    else Some (IRQ_HANDLED, [Push data', Kfree, NotifyDone], h1))))"

text \<open>
  What \<^verbatim>\<open>register_bmp280_iio_device\<close> establishes for the device it registers: the
  channel table and its size.
\<close>

definition registered :: "iio_dev \<Rightarrow> bool" where
  "registered indio_dev =
     (channels indio_dev = bmp280_iio_channels
      \<and> num_channels indio_dev = length bmp280_iio_channels)"

section \<open>A device to run the driver on\<close>

text \<open>
  The sensor of the worked example in the BMP280 datasheet (section 3.12): its
  calibration registers (least significant byte first, as the sensor stores them) and
  one measurement, raw temperature 519888 and raw pressure 415148, each in the upper
  twenty bits of its register triple.
\<close>

definition datasheet_client :: i2c_client where
  "datasheet_client =
     \<lparr> read_byte_reply = (\<lambda>h reg. if reg = 0xD0 then 0x58 else 0),
       write_byte_reply = (\<lambda>h reg v. 0),
       read_block_reply = (\<lambda>h reg len.
         if reg = 0x88 \<and> len = 6 then BlockData [0x70, 0x6B, 0x43, 0x67, 0x18, 0xFC]
         else if reg = 0x8e \<and> len = 18 then
           BlockData [0x7D, 0x8E, 0x43, 0xD6, 0xD0, 0x0B, 0x27, 0x0B, 0x8C, 0x00,
                      0xF9, 0xFF, 0x8C, 0x3C, 0xF8, 0xC6, 0x70, 0x17]
         else if reg = 0xfa \<and> len = 3 then BlockData [0x7E, 0xED, 0x00]
         else if reg = 0xf7 \<and> len = 3 then BlockData [0x65, 0x5A, 0xC0]
         else if reg = 0xf7 \<and> len = 6 then BlockData [0x65, 0x5A, 0xC0, 0x7E, 0xED, 0x00]
         else BlockErr (- 5)) \<rparr>"

definition datasheet_ctx :: bmp280_ctx where
  "datasheet_ctx =
     \<lparr> client = datasheet_client,
       dig_T = [0, 27504, 26435, - 1000],
       dig_P = [0, 36477, - 10685, 3024, 2855, 140, - 7, 15500, - 14600, 6000] \<rparr>"

section \<open>The rules of the specification\<close>

text \<open>
  The parsing rule for a calibration value as the specification words it: the first
  value of a group is taken unsigned, every other value \<open>v\<close> is \<open>v\<close> up to 32767 and
  \<open>v - 65536\<close> above.
\<close>

definition spec_calibration_value :: "bool \<Rightarrow> int \<Rightarrow> int" where
  "spec_calibration_value first v = (if first then v else if v \<le> 32767 then v else v - 65536)"

text \<open>A context as it is before the calibration values are read: the arrays are zero.\<close>

definition blank_ctx :: bmp280_ctx where
  "blank_ctx = \<lparr> client = datasheet_client, dig_T = [0, 0, 0, 0],
                   dig_P = [0, 0, 0, 0, 0, 0, 0, 0, 0, 0] \<rparr>"

text \<open>
  The temperature formula as the specification declares it: the raw value and the
  calibration constants enter an \<^verbatim>\<open>s64\<close> intermediate, and the processed temperature is
  \<open>(fine * 5 + 128) >> 8\<close> of it, returned as \<^verbatim>\<open>s32\<close>.
\<close>

definition spec_rawTemperatureTripleToFine :: "s32 \<Rightarrow> s32 list \<Rightarrow> s64" where
  "spec_rawTemperatureTripleToFine raw20 dT =
     (let raw = (scast raw20 :: s64);
          dig_T1 = (scast (dT ! 1) :: s64);
          dig_T2 = (scast (dT ! 2) :: s64);
          dig_T3 = (scast (dT ! 3) :: s64);
          var1 = signed_drop_bit 11 ((signed_drop_bit 3 raw - push_bit 1 dig_T1) * dig_T2);
          var2 = signed_drop_bit 14
                   (signed_drop_bit 12
                      ((signed_drop_bit 4 raw - dig_T1) * (signed_drop_bit 4 raw - dig_T1))
                    * dig_T3)
      in var1 + var2)"

definition spec_processedTemperature :: "s32 \<Rightarrow> s32 list \<Rightarrow> s32" where
  "spec_processedTemperature raw20 dT =
     ucast (signed_drop_bit 8 (spec_rawTemperatureTripleToFine raw20 dT * 5 + 128))"

text \<open>
  The same formula on the integers with every \<^verbatim>\<open>s32\<close> operation reduced to the signed
  32-bit range: \<open>s32_wrap\<close> is the two's-complement value of the low 32 bits, a right
  shift is the division that rounds down.
\<close>

definition s32_wrap :: "int \<Rightarrow> int" where
  "s32_wrap k = (k + 2 ^ 31) mod 2 ^ 32 - 2 ^ 31"

definition t_fine_s32 :: "int \<Rightarrow> int \<Rightarrow> int \<Rightarrow> int \<Rightarrow> int" where
  "t_fine_s32 raw T1 T2 T3 =
     (let var1 = s32_wrap (s32_wrap (raw div 2 ^ 3 - s32_wrap (T1 * 2 ^ 1)) * T2) div 2 ^ 11;
          var2 = s32_wrap
                   (s32_wrap (s32_wrap (raw div 2 ^ 4 - T1) * s32_wrap (raw div 2 ^ 4 - T1))
                      div 2 ^ 12 * T3) div 2 ^ 14
      in s32_wrap (var1 + var2))"

definition processed_temperature_s32 :: "int \<Rightarrow> int \<Rightarrow> int \<Rightarrow> int \<Rightarrow> int" where
  "processed_temperature_s32 raw T1 T2 T3 =
     s32_wrap (s32_wrap (t_fine_s32 raw T1 T2 T3 * 5) + 128) div 2 ^ 8"

text \<open>
  The formula on the integers with no reduction at all, and the condition that none of
  the values the \<^verbatim>\<open>s32\<close> computation goes through leaves the signed 32-bit range.
\<close>

definition fits_s32 :: "int \<Rightarrow> bool" where
  "fits_s32 k = (- (2 ^ 31) \<le> k \<and> k < 2 ^ 31)"

definition t_fine_exact :: "int \<Rightarrow> int \<Rightarrow> int \<Rightarrow> int \<Rightarrow> int" where
  "t_fine_exact raw T1 T2 T3 =
     ((raw div 2 ^ 3 - T1 * 2 ^ 1) * T2) div 2 ^ 11
     + ((raw div 2 ^ 4 - T1) * (raw div 2 ^ 4 - T1) div 2 ^ 12 * T3) div 2 ^ 14"

definition s32_intermediates_fit :: "int \<Rightarrow> int \<Rightarrow> int \<Rightarrow> int \<Rightarrow> bool" where
  "s32_intermediates_fit raw T1 T2 T3 =
     (fits_s32 (T1 * 2 ^ 1)
      \<and> fits_s32 (raw div 2 ^ 3 - T1 * 2 ^ 1)
      \<and> fits_s32 ((raw div 2 ^ 3 - T1 * 2 ^ 1) * T2)
      \<and> fits_s32 (raw div 2 ^ 4 - T1)
      \<and> fits_s32 ((raw div 2 ^ 4 - T1) * (raw div 2 ^ 4 - T1))
      \<and> fits_s32 ((raw div 2 ^ 4 - T1) * (raw div 2 ^ 4 - T1) div 2 ^ 12 * T3)
      \<and> fits_s32 (t_fine_exact raw T1 T2 T3)
      \<and> fits_s32 (t_fine_exact raw T1 T2 T3 * 5)
      \<and> fits_s32 (t_fine_exact raw T1 T2 T3 * 5 + 128))"

text \<open>
  The datasheet's sensor with other calibration constants for the temperature,
  \<open>dig_T1 = 65535\<close> and \<open>dig_T2 = -32768\<close>, both values the parsing rule can produce.
\<close>

definition overflow_ctx :: bmp280_ctx where
  "overflow_ctx =
     \<lparr> client = datasheet_client,
       dig_T = [0, 65535, - 32768, 0],
       dig_P = [0, 36477, - 10685, 3024, 2855, 140, - 7, 15500, - 14600, 6000] \<rparr>"

text \<open>
  A block read has failed when it answers a negative status or fewer bytes than were
  asked for.
\<close>

definition block_read_failed :: "block_reply \<Rightarrow> nat \<Rightarrow> bool" where
  "block_read_failed reply len =
     (case reply of BlockErr e \<Rightarrow> e <s 0 | BlockData bs \<Rightarrow> length bs < len)"

text \<open>
  The datasheet's sensor on a bus that works for the first \<open>n\<close> requests and fails
  every request after them: byte reads with \<open>-5\<close>, byte writes with \<open>-121\<close>, block reads
  with \<open>-6\<close>.
\<close>

definition flaky_client :: "nat \<Rightarrow> i2c_client" where
  "flaky_client n =
     \<lparr> read_byte_reply = (\<lambda>h reg. if length h < n then read_byte_reply datasheet_client h reg
                                   else - 5),
       write_byte_reply = (\<lambda>h reg v. if length h < n then 0 else - 121),
       read_block_reply = (\<lambda>h reg len. if length h < n
                                        then read_block_reply datasheet_client h reg len
                                        else BlockErr (- 6)) \<rparr>"

definition flaky_ctx :: "nat \<Rightarrow> bmp280_ctx" where
  "flaky_ctx n = \<lparr> client = flaky_client n, dig_T = [0, 0, 0, 0],
                    dig_P = [0, 0, 0, 0, 0, 0, 0, 0, 0, 0] \<rparr>"

text \<open>
  The sample record as the specification describes it. A channel takes
  \<open>storagebits / 8\<close> bytes; its cell is its value in that many bytes in the byte order
  of the host, two bytes for 16-bit storage and four bytes for 32-bit storage.
\<close>

definition storage_bytes :: "iio_chan_spec \<Rightarrow> nat" where
  "storage_bytes chan = storagebits (scan_type chan) div 8"

definition cell :: "cpu_endianness \<Rightarrow> iio_chan_spec \<Rightarrow> s32 \<Rightarrow> u8 list" where
  "cell c chan v =
     (if storagebits (scan_type chan) = 16 then bytes_of_u16 c (ucast v) else bytes_of_u32 c v)"

text \<open>
  Resolving a list of channels one after the other on the same bus: the values in
  order, or nothing as soon as one read fails.
\<close>

fun resolve_all ::
  "bmp280_ctx \<Rightarrow> iio_chan_spec list \<Rightarrow> bus_request list
     \<Rightarrow> s32 list option \<times> bus_request list" where
  "resolve_all bmp280 [] h = (Some [], h)"
| "resolve_all bmp280 (chan # chans) h =
     (case bmp280_iio_read_from_channel bmp280 chan h of
        (Some (Inr r), h1) \<Rightarrow>
          (case resolve_all bmp280 chans h1 of
             (Some vs, h2) \<Rightarrow> (Some (val_of r # vs), h2)
           | (None, h2) \<Rightarrow> (None, h2))
      | (Some (Inl status), h1) \<Rightarrow> (None, h1)
      | (None, h1) \<Rightarrow> (None, h1))"

text \<open>The active channels of a device: those at the set bits of its mask, ascending.\<close>

definition active_channels :: "iio_dev \<Rightarrow> iio_chan_spec list" where
  "active_channels indio_dev =
     map ((!) (channels indio_dev))
       (set_bits (active_scan_mask indio_dev) (num_channels indio_dev))"

text \<open>Four bytes of memory read as a 32-bit integer by the host.\<close>

definition s32_of_bytes :: "cpu_endianness \<Rightarrow> u8 list \<Rightarrow> s32" where
  "s32_of_bytes c bs =
     (case c of
        LittleEndian \<Rightarrow> push_bit 24 (ucast (bs ! 3)) OR push_bit 16 (ucast (bs ! 2))
                        OR push_bit 8 (ucast (bs ! 1)) OR ucast (bs ! 0)
      | BigEndian \<Rightarrow> push_bit 24 (ucast (bs ! 0)) OR push_bit 16 (ucast (bs ! 1))
                     OR push_bit 8 (ucast (bs ! 2)) OR ucast (bs ! 3))"

text \<open>
  A little-endian host with memory to spare, and the device as
  \<^verbatim>\<open>register_bmp280_iio_device\<close> sets it up around a context, with the scan mask and
  the sample size chosen by the IIO core.
\<close>

definition little_endian_host :: kernel where
  "little_endian_host =
     \<lparr> cpu = LittleEndian, kzalloc_succeeds = True, iio_push_to_buffers_status = (\<lambda>data. 0) \<rparr>"

definition bmp280_iio_dev :: "bmp280_ctx \<Rightarrow> nat \<Rightarrow> nat \<Rightarrow> iio_dev" where
  "bmp280_iio_dev bmp280 active n =
     \<lparr> channels = bmp280_iio_channels, num_channels = length bmp280_iio_channels,
       active_scan_mask = active, scan_bytes = n, priv = bmp280 \<rparr>"

section \<open>Facts about the bus and the raw reads\<close>

lemma raw24_take: "take_bit 24 (push_bit 16 (ucast (a::u8)) OR push_bit 8 (ucast (b::u8)) OR ucast (c::u8) :: s32)
   = push_bit 16 (ucast a) OR push_bit 8 (ucast b) OR ucast c"
  by (rule bit_word_eqI) (auto simp: bit_simps dest: bit_imp_le_length)

lemma raw24_range:
  fixes a b c :: u8
  defines "v \<equiv> (push_bit 16 (ucast a) OR push_bit 8 (ucast b) OR ucast c :: s32)"
  shows "0 \<le> sint v \<and> sint v < 2 ^ 24"
proof -
  have "take_bit 24 v = v"
    unfolding v_def by (rule raw24_take)
  then have "uint v = take_bit 24 (uint v)"
    by (simp add: unsigned_take_bit_eq [symmetric])
  then have u: "uint v < 2 ^ 24"
    using take_bit_int_less_exp [of 24 "uint v"] by simp
  have "sint v = signed_take_bit 31 (uint v)"
    by (simp add: sint_uint)
  also have "\<dots> = uint v"
  proof (rule signed_take_bit_int_eq_self)
    have "- (2 ^ 31) \<le> (0::int)" by simp
    then show "- (2 ^ 31) \<le> uint v" by (rule order_trans) simp
    show "uint v < 2 ^ 31" using u by simp
  qed
  finally show ?thesis using u by simp
qed

lemma block_read_data:
  "read_block_reply cl h reg len = BlockData bs \<Longrightarrow> length bs = len \<Longrightarrow> length buf = len \<Longrightarrow>
   i2c_smbus_read_i2c_block_data cl reg len buf h = ((of_nat len, bs), h @ [ReadBlockData reg len])"
  by (simp add: i2c_smbus_read_i2c_block_data_def Let_def)

lemma block_read_result:
  assumes "i2c_smbus_read_i2c_block_data cl reg len buf h = ((rd, values), h1)"
  shows "h1 = h @ [ReadBlockData reg len]" and "length buf = len \<Longrightarrow> length values = len"
  using assms
  by (auto simp: i2c_smbus_read_i2c_block_data_def Let_def split: block_reply.splits)

lemma raw_temperature_trace:
  "snd (read_bmp280_raw_temperature bmp280 h) = h @ [ReadBlockData BMP280_TEMP_RAW_REG_ADDRESS 3]"
  by (auto simp: read_bmp280_raw_temperature_def Let_def split: prod.splits
      dest: block_read_result(1))

lemma raw_pressure_trace:
  "snd (read_bmp280_raw_pressure bmp280 h) = h @ [ReadBlockData BMP280_PRESS_RAW_REG_ADDRESS 3]"
  by (auto simp: read_bmp280_raw_pressure_def Let_def split: prod.splits
      dest: block_read_result(1))

lemma raw_temperature_data:
  "read_block_reply (client bmp280) h BMP280_TEMP_RAW_REG_ADDRESS 3 = BlockData [b0, b1, b2] \<Longrightarrow>
   read_bmp280_raw_temperature bmp280 h =
     (Inr (push_bit 16 (ucast b0) OR push_bit 8 (ucast b1) OR ucast b2),
      h @ [ReadBlockData BMP280_TEMP_RAW_REG_ADDRESS 3])"
  using block_read_data [of "client bmp280" h BMP280_TEMP_RAW_REG_ADDRESS 3 "[b0,b1,b2]" "[0,0,0]"]
  by (simp add: read_bmp280_raw_temperature_def)

lemma raw_pressure_data:
  "read_block_reply (client bmp280) h BMP280_PRESS_RAW_REG_ADDRESS 3 = BlockData [b0, b1, b2] \<Longrightarrow>
   read_bmp280_raw_pressure bmp280 h =
     (Inr (push_bit 16 (ucast b0) OR push_bit 8 (ucast b1) OR ucast b2),
      h @ [ReadBlockData BMP280_PRESS_RAW_REG_ADDRESS 3])"
  using block_read_data [of "client bmp280" h BMP280_PRESS_RAW_REG_ADDRESS 3 "[b0,b1,b2]" "[0,0,0]"]
  by (simp add: read_bmp280_raw_pressure_def)

lemma list3: "length xs = 3 \<Longrightarrow> \<exists>a b c. xs = [a, b, c]"
  by (auto simp: length_Suc_conv numeral_3_eq_3)

lemma raw_temperature_range:
  "case fst (read_bmp280_raw_temperature bmp280 h) of
     Inl e \<Rightarrow> e = EIO
   | Inr v \<Rightarrow> 0 \<le> sint v \<and> sint v < 2 ^ 24"
proof -
  obtain rd vals h1 where
    eq: "i2c_smbus_read_i2c_block_data (client bmp280) BMP280_TEMP_RAW_REG_ADDRESS 3 [0, 0, 0] h
           = ((rd, vals), h1)"
    by (metis surj_pair)
  have "length vals = 3"
    using block_read_result(2) [OF eq] by simp
  then obtain a b c where v: "vals = [a, b, c]"
    using list3 by blast
  show ?thesis
    using raw24_range [of a b c]
    by (simp add: read_bmp280_raw_temperature_def eq v)
qed

lemma raw_pressure_range:
  "case fst (read_bmp280_raw_pressure bmp280 h) of
     Inl e \<Rightarrow> e = EIO
   | Inr v \<Rightarrow> 0 \<le> sint v \<and> sint v < 2 ^ 24"
proof -
  obtain rd vals h1 where
    eq: "i2c_smbus_read_i2c_block_data (client bmp280) BMP280_PRESS_RAW_REG_ADDRESS 3 [0, 0, 0] h
           = ((rd, vals), h1)"
    by (metis surj_pair)
  have "length vals = 3"
    using block_read_result(2) [OF eq] by simp
  then obtain a b c where v: "vals = [a, b, c]"
    using list3 by blast
  show ?thesis
    using raw24_range [of a b c]
    by (simp add: read_bmp280_raw_pressure_def eq v)
qed

lemma raw24_bytes:
  fixes b0 b1 b2 :: u8
  defines "v \<equiv> (push_bit 16 (ucast b0) OR push_bit 8 (ucast b1) OR ucast b2 :: s32)"
  shows "(ucast v :: u8) = b2" and "(ucast (drop_bit 8 v) :: u8) = b1"
    and "(ucast (drop_bit 16 v) :: u8) = b0" and "drop_bit 24 v = 0"
  unfolding v_def
  by (rule bit_word_eqI; auto simp: bit_simps dest: bit_imp_le_length)+

text \<open>
  Claim C10. Whatever the bus answers, a raw temperature or raw pressure read either
  fails with \<^verbatim>\<open>-EIO\<close> or hands back a value in the range from 0 to \<open>2 ^ 24 - 1\<close>: the
  three bytes are widened unsigned and combined, nothing is sign-extended, so the value
  is never negative although the channel is declared signed.
\<close>

theorem raw_values_within_24_bits:
  "(case fst (read_bmp280_raw_temperature bmp280 h) of
      Inl e \<Rightarrow> e = EIO
    | Inr v \<Rightarrow> 0 \<le> sint v \<and> sint v < 2 ^ 24)
   \<and> (case fst (read_bmp280_raw_pressure bmp280 h) of
      Inl e \<Rightarrow> e = EIO
    | Inr v \<Rightarrow> 0 \<le> sint v \<and> sint v < 2 ^ 24)"
  using raw_temperature_range [of bmp280 h] raw_pressure_range [of bmp280 h] by simp

lemma chan3: "bmp280_iio_channels ! 3 =
       \<lparr> type = IIO_TEMP, indexed = True, channel = 3,
         address = unat BMP280_TEMP_RAW_REG_ADDRESS,
         info_mask_separate = BIT IIO_CHAN_INFO_RAW, scan_index = 3,
         scan_type = \<lparr> sign = CHR ''s'', realbits = 20, storagebits = 32, shift = 4,
                       endianness = IIO_CPU \<rparr>,
         is_output = False \<rparr>"
  by (simp add: bmp280_iio_channels_def)

lemma chan14: "bmp280_iio_channels ! 14 =
       \<lparr> type = IIO_PRESSURE, indexed = True, channel = 9,
         address = unat BMP280_PRESS_RAW_REG_ADDRESS,
         info_mask_separate = BIT IIO_CHAN_INFO_RAW, scan_index = 14,
         scan_type = \<lparr> sign = CHR ''s'', realbits = 20, storagebits = 32, shift = 4,
                       endianness = IIO_CPU \<rparr>,
         is_output = False \<rparr>"
  by (simp add: bmp280_iio_channels_def)

lemma read_chan3:
  "bmp280_iio_read_from_channel bmp280 (bmp280_iio_channels ! 3) h =
     (case read_bmp280_raw_temperature bmp280 h of
        (Inl status, h1) \<Rightarrow> (Some (Inl status), h1)
      | (Inr raw_temp, h1) \<Rightarrow> (Some (Inr (IIO_VAL_INT raw_temp)), h1))"
  by (simp add: chan3 bmp280_iio_read_from_channel_def iio_channel_has_info_def BIT_def
      IIO_CHAN_INFO_RAW_def)

lemma read_chan14:
  "bmp280_iio_read_from_channel bmp280 (bmp280_iio_channels ! 14) h =
     (case read_bmp280_raw_pressure bmp280 h of
        (Inl status, h1) \<Rightarrow> (Some (Inl status), h1)
      | (Inr raw_press, h1) \<Rightarrow> (Some (Inr (IIO_VAL_INT raw_press)), h1))"
  by (simp add: chan14 bmp280_iio_read_from_channel_def iio_channel_has_info_def BIT_def
      IIO_CHAN_INFO_RAW_def)

text \<open>
  Claim C5. Reading a raw channel (position 3, temperature; position 14, pressure) makes
  exactly one bus access, a block read of 3 bytes at the register address of the
  channel; when the device answers the bytes \<open>b0\<close>, \<open>b1\<close>, \<open>b2\<close> the value is
  \<open>(b0 << 16) | (b1 << 8) | b2\<close>, not shifted right: its low byte is \<open>b2\<close> whole,
  padding bits included.
\<close>

theorem raw_channel_single_block_read:
  assumes "chan = bmp280_iio_channels ! 3 \<or> chan = bmp280_iio_channels ! 14"
  shows "snd (bmp280_iio_read_from_channel bmp280 chan h)
           = h @ [ReadBlockData (of_nat (address chan)) 3]
         \<and> (read_block_reply (client bmp280) h (of_nat (address chan)) 3
               = BlockData [b0, b1, b2] \<longrightarrow>
            (\<exists>v. fst (bmp280_iio_read_from_channel bmp280 chan h) = Some (Inr (IIO_VAL_INT v))
                 \<and> v = push_bit 16 (ucast b0) OR push_bit 8 (ucast b1) OR ucast b2
                 \<and> ucast v = b2 \<and> ucast (drop_bit 8 v) = b1 \<and> ucast (drop_bit 16 v) = b0))"
  using assms
proof
  assume c: "chan = bmp280_iio_channels ! 3"
  have a: "(of_nat (address chan) :: u8) = BMP280_TEMP_RAW_REG_ADDRESS"
    by (simp add: c chan3)
  have t: "snd (bmp280_iio_read_from_channel bmp280 chan h)
             = h @ [ReadBlockData BMP280_TEMP_RAW_REG_ADDRESS 3]"
    using raw_temperature_trace [of bmp280 h]
    by (auto simp: c read_chan3 split: prod.splits sum.splits)
  show ?thesis
    unfolding a using t raw24_bytes(1-3) [of b0 b1 b2]
    by (auto simp: c read_chan3 raw_temperature_data)
next
  assume c: "chan = bmp280_iio_channels ! 14"
  have a: "(of_nat (address chan) :: u8) = BMP280_PRESS_RAW_REG_ADDRESS"
    by (simp add: c chan14)
  have t: "snd (bmp280_iio_read_from_channel bmp280 chan h)
             = h @ [ReadBlockData BMP280_PRESS_RAW_REG_ADDRESS 3]"
    using raw_pressure_trace [of bmp280 h]
    by (auto simp: c read_chan14 split: prod.splits sum.splits)
  show ?thesis
    unfolding a using t raw24_bytes(1-3) [of b0 b1 b2]
    by (auto simp: c read_chan14 raw_pressure_data)
qed

lemma datasheet_block [simp]:
  "read_block_reply (client datasheet_ctx) h 0xfa 3 = BlockData [0x7E, 0xED, 0x00]"
  by (simp add: datasheet_ctx_def datasheet_client_def)

theorem raw_channel_single_block_read_witness:
  "bmp280_iio_channels ! 3 = bmp280_iio_channels ! 3
   \<and> read_block_reply (client datasheet_ctx) [] (of_nat (address (bmp280_iio_channels ! 3))) 3
        = BlockData [0x7E, 0xED, 0x00]
   \<and> bmp280_iio_read_from_channel datasheet_ctx (bmp280_iio_channels ! 3) []
        = (Some (Inr (IIO_VAL_INT 0x7EED00)), [ReadBlockData 0xfa 3])"
  using raw_channel_single_block_read
          [of "bmp280_iio_channels ! 3" datasheet_ctx "[]" "0x7E" "0xED" "0x00"]
  by (auto simp: chan3 BMP280_TEMP_RAW_REG_ADDRESS_def datasheet_ctx_def datasheet_client_def
      prod_eq_iff)

section \<open>Calibration values\<close>

lemma uint_u16_bound: "uint (v :: u16) < 65536"
  using uint_bounded [of v] by simp

lemma sint_ucast_u16_s32: "sint (ucast (v :: u16) :: s32) = uint v"
proof -
  have "uint (ucast v :: s32) = uint v"
    by (simp add: uint_up_ucast is_up)
  moreover have "sint (ucast v :: s32) = signed_take_bit 31 (uint (ucast v :: s32))"
    by (simp add: sint_uint)
  moreover have "signed_take_bit 31 (uint v) = uint v"
  proof (rule signed_take_bit_int_eq_self)
    have "- (2 ^ 31) \<le> (0::int)" by simp
    then show "- (2 ^ 31) \<le> uint v" by (rule order_trans) simp
    show "uint v < 2 ^ 31" using uint_u16_bound [of v] by simp
  qed
  ultimately show ?thesis by simp
qed

lemma sint_ucast_u16_s64: "sint (ucast (v :: u16) :: s64) = uint v"
proof -
  have "uint (ucast v :: s64) = uint v"
    by (simp add: uint_up_ucast is_up)
  moreover have "sint (ucast v :: s64) = signed_take_bit 63 (uint (ucast v :: s64))"
    by (simp add: sint_uint)
  moreover have "signed_take_bit 63 (uint v) = uint v"
  proof (rule signed_take_bit_int_eq_self)
    have "- (2 ^ 63) \<le> (0::int)" by simp
    then show "- (2 ^ 63) \<le> uint v" by (rule order_trans) simp
    show "uint v < 2 ^ 63" using uint_u16_bound [of v] by simp
  qed
  ultimately show ?thesis by simp
qed

lemma sint_sub_s32: "sint ((ucast (v :: u16) :: s32) - 65536) = uint v - 65536"
proof -
  have "sint ((ucast v :: s32) - 65536) = signed_take_bit 31 (sint (ucast v :: s32) - sint (65536 :: s32))"
    by (simp add: sint_word_ariths)
  also have "\<dots> = signed_take_bit 31 (uint v - 65536)"
    by (simp add: sint_ucast_u16_s32)
  also have "\<dots> = uint v - 65536"
  proof (rule signed_take_bit_int_eq_self)
    show "- (2 ^ 31) \<le> uint v - 65536" using uint_ge_0 [of v] by simp
    show "uint v - 65536 < 2 ^ 31" using uint_u16_bound [of v] by simp
  qed
  finally show ?thesis .
qed

lemma sint_sub_s64: "sint ((ucast (v :: u16) :: s64) - 65536) = uint v - 65536"
proof -
  have "sint ((ucast v :: s64) - 65536) = signed_take_bit 63 (sint (ucast v :: s64) - sint (65536 :: s64))"
    by (simp add: sint_word_ariths)
  also have "\<dots> = signed_take_bit 63 (uint v - 65536)"
    by (simp add: sint_ucast_u16_s64)
  also have "\<dots> = uint v - 65536"
  proof (rule signed_take_bit_int_eq_self)
    show "- (2 ^ 63) \<le> uint v - 65536" using uint_ge_0 [of v] by simp
    show "uint v - 65536 < 2 ^ 63" using uint_u16_bound [of v] by simp
  qed
  finally show ?thesis .
qed

lemma sless_s32: "(32767 <s (ucast (v :: u16) :: s32)) = (32767 < uint v)"
  by (simp add: word_sless_alt sint_ucast_u16_s32)

lemma sless_s64: "(32767 <s (ucast (v :: u16) :: s64)) = (32767 < uint v)"
  by (simp add: word_sless_alt sint_ucast_u16_s64)

lemma store_dig_T_nth:
  "i < length dT \<Longrightarrow>
   sint (store_dig_T buf i dT ! i) = spec_calibration_value (i = 1) (uint (buf ! (i - 1)))"
  by (simp add: store_dig_T_def Let_def spec_calibration_value_def sless_s32 sint_sub_s32
      sint_ucast_u16_s32)

lemma store_dig_T_other:
  "j \<noteq> i \<Longrightarrow> store_dig_T buf i dT ! j = dT ! j"
  by (simp add: store_dig_T_def Let_def)

lemma store_dig_T_length: "length (store_dig_T buf i dT) = length dT"
  by (simp add: store_dig_T_def Let_def)

lemma store_dig_P_nth:
  "i < length dP \<Longrightarrow>
   sint (store_dig_P buf i dP ! i) = spec_calibration_value (i = 1) (uint (buf ! (i - 1)))"
  by (simp add: store_dig_P_def Let_def spec_calibration_value_def sless_s64 sint_sub_s64
      sint_ucast_u16_s64)

lemma store_dig_P_other:
  "j \<noteq> i \<Longrightarrow> store_dig_P buf i dP ! j = dP ! j"
  by (simp add: store_dig_P_def Let_def)

lemma store_dig_P_length: "length (store_dig_P buf i dP) = length dP"
  by (simp add: store_dig_P_def Let_def)

lemma fold_store_dig_T:
  "distinct is \<Longrightarrow> \<forall>i\<in>set is. i < length dT \<Longrightarrow>
   length (fold (store_dig_T buf) is dT) = length dT \<and>
   (\<forall>j. j \<notin> set is \<longrightarrow> fold (store_dig_T buf) is dT ! j = dT ! j) \<and>
   (\<forall>i\<in>set is. sint (fold (store_dig_T buf) is dT ! i)
        = spec_calibration_value (i = 1) (uint (buf ! (i - 1))))"
proof (induction "is" arbitrary: dT)
  case Nil
  then show ?case by simp
next
  case (Cons a "is")
  let ?d = "store_dig_T buf a dT"
  have len: "length ?d = length dT" by (rule store_dig_T_length)
  have ih: "length (fold (store_dig_T buf) is ?d) = length ?d \<and>
   (\<forall>j. j \<notin> set is \<longrightarrow> fold (store_dig_T buf) is ?d ! j = ?d ! j) \<and>
   (\<forall>i\<in>set is. sint (fold (store_dig_T buf) is ?d ! i)
        = spec_calibration_value (i = 1) (uint (buf ! (i - 1))))"
    using Cons.prems by (intro Cons.IH) (auto simp: len)
  have a: "a \<notin> set is" "a < length dT" using Cons.prems by auto
  show ?case
    using ih a store_dig_T_nth [OF a(2), of buf]
    by (auto simp: len store_dig_T_other)
qed

lemma fold_store_dig_P:
  "distinct is \<Longrightarrow> \<forall>i\<in>set is. i < length dP \<Longrightarrow>
   length (fold (store_dig_P buf) is dP) = length dP \<and>
   (\<forall>j. j \<notin> set is \<longrightarrow> fold (store_dig_P buf) is dP ! j = dP ! j) \<and>
   (\<forall>i\<in>set is. sint (fold (store_dig_P buf) is dP ! i)
        = spec_calibration_value (i = 1) (uint (buf ! (i - 1))))"
proof (induction "is" arbitrary: dP)
  case Nil
  then show ?case by simp
next
  case (Cons a "is")
  let ?d = "store_dig_P buf a dP"
  have len: "length ?d = length dP" by (rule store_dig_P_length)
  have ih: "length (fold (store_dig_P buf) is ?d) = length ?d \<and>
   (\<forall>j. j \<notin> set is \<longrightarrow> fold (store_dig_P buf) is ?d ! j = ?d ! j) \<and>
   (\<forall>i\<in>set is. sint (fold (store_dig_P buf) is ?d ! i)
        = spec_calibration_value (i = 1) (uint (buf ! (i - 1))))"
    using Cons.prems by (intro Cons.IH) (auto simp: len)
  have a: "a \<notin> set is" "a < length dP" using Cons.prems by auto
  show ?case
    using ih a store_dig_P_nth [OF a(2), of buf]
    by (auto simp: len store_dig_P_other)
qed

lemma calibration_success:
  assumes t: "read_block_reply (client bmp280) h BMP280_TEMP_CALIBRATION_BASE_REG_ADDRESS 6
                = BlockData tb" "length tb = 6"
    and p: "read_block_reply (client bmp280)
              (h @ [ReadBlockData BMP280_TEMP_CALIBRATION_BASE_REG_ADDRESS 6])
              BMP280_PRESS_CALIBRATION_BASE_REG_ADDRESS 18 = BlockData pb" "length pb = 18"
  shows "read_bmp280_calibration_values c bmp280 h =
           (Inr (bmp280\<lparr>dig_T := fold (store_dig_T (u16_array c tb)) [1..<4] ((dig_T bmp280)[0 := 0]),
                         dig_P := fold (store_dig_P (u16_array c pb)) [1..<10] ((dig_P bmp280)[0 := 0])\<rparr>),
            h @ [ReadBlockData BMP280_TEMP_CALIBRATION_BASE_REG_ADDRESS 6,
                 ReadBlockData BMP280_PRESS_CALIBRATION_BASE_REG_ADDRESS 18])"
  using block_read_data [OF t, of "replicate 6 0"] block_read_data [OF p, of "replicate 18 0"]
  by (simp add: read_bmp280_calibration_values_def)

text \<open>
  Claim C3. When the two calibration block reads deliver their 6 and 18 bytes, loading
  succeeds and every stored constant is the parsed value of the 16-bit value read for
  it: the first of each group (\<open>dig_T1\<close>, \<open>dig_P1\<close>) unsigned, all others \<open>v\<close> when
  \<open>v \<le> 32767\<close> and \<open>v - 65536\<close> otherwise, for all 3 temperature and all 9 pressure
  constants alike.
\<close>

theorem calibration_values_parsed:
  assumes "ctx_wf bmp280"
    and "read_block_reply (client bmp280) h BMP280_TEMP_CALIBRATION_BASE_REG_ADDRESS 6
           = BlockData tb" and "length tb = 6"
    and "read_block_reply (client bmp280)
           (h @ [ReadBlockData BMP280_TEMP_CALIBRATION_BASE_REG_ADDRESS 6])
           BMP280_PRESS_CALIBRATION_BASE_REG_ADDRESS 18 = BlockData pb" and "length pb = 18"
  shows "\<exists>bmp280'. fst (read_bmp280_calibration_values c bmp280 h) = Inr bmp280'
           \<and> (\<forall>i\<in>{1..3}. sint (dig_T bmp280' ! i)
                  = spec_calibration_value (i = 1) (uint (u16_array c tb ! (i - 1))))
           \<and> (\<forall>i\<in>{1..9}. sint (dig_P bmp280' ! i)
                  = spec_calibration_value (i = 1) (uint (u16_array c pb ! (i - 1))))"
proof -
  have lt: "length ((dig_T bmp280)[0 := 0]) = 4" and lp: "length ((dig_P bmp280)[0 := 0]) = 10"
    using assms(1) by (simp_all add: ctx_wf_def)
  have T: "\<forall>i\<in>set [1..<4]. sint (fold (store_dig_T (u16_array c tb)) [1..<4] ((dig_T bmp280)[0 := 0]) ! i)
             = spec_calibration_value (i = 1) (uint (u16_array c tb ! (i - 1)))"
    using fold_store_dig_T [of "[1..<4]" "(dig_T bmp280)[0 := 0]" "u16_array c tb"] lt
    by simp
  have P: "\<forall>i\<in>set [1..<10]. sint (fold (store_dig_P (u16_array c pb)) [1..<10] ((dig_P bmp280)[0 := 0]) ! i)
             = spec_calibration_value (i = 1) (uint (u16_array c pb ! (i - 1)))"
    using fold_store_dig_P [of "[1..<10]" "(dig_P bmp280)[0 := 0]" "u16_array c pb"] lp
    by simp
  show ?thesis
    using T P by (simp add: calibration_success [OF assms(2-5)])
qed



lemma eval_T: "fold (store_dig_T (u16_array LittleEndian [0x70, 0x6B, 0x43, 0x67, 0x18, 0xFC]))
    [1..<4] ([0, 0, 0, 0][0 := 0]) = [0, 27504, 26435, - 1000]"
  by code_simp

lemma eval_P: "fold (store_dig_P (u16_array LittleEndian [0x7D, 0x8E, 0x43, 0xD6, 0xD0, 0x0B, 0x27, 0x0B, 0x8C, 0x00,
                      0xF9, 0xFF, 0x8C, 0x3C, 0xF8, 0xC6, 0x70, 0x17]))
    [1..<10] ([0, 0, 0, 0, 0, 0, 0, 0, 0, 0][0 := 0]) = [0, 36477, - 10685, 3024, 2855, 140, - 7, 15500, - 14600, 6000]"
  by code_simp

lemma datasheet_calibration:
  "read_bmp280_calibration_values LittleEndian blank_ctx [] =
     (Inr datasheet_ctx, [ReadBlockData 0x88 6, ReadBlockData 0x8e 18])"
proof -
  have t: "read_block_reply (client blank_ctx) [] BMP280_TEMP_CALIBRATION_BASE_REG_ADDRESS 6
             = BlockData [0x70, 0x6B, 0x43, 0x67, 0x18, 0xFC]"
    by (simp add: blank_ctx_def datasheet_client_def BMP280_TEMP_CALIBRATION_BASE_REG_ADDRESS_def)
  have p: "read_block_reply (client blank_ctx)
             ([] @ [ReadBlockData BMP280_TEMP_CALIBRATION_BASE_REG_ADDRESS 6])
             BMP280_PRESS_CALIBRATION_BASE_REG_ADDRESS 18
             = BlockData [0x7D, 0x8E, 0x43, 0xD6, 0xD0, 0x0B, 0x27, 0x0B, 0x8C, 0x00,
                          0xF9, 0xFF, 0x8C, 0x3C, 0xF8, 0xC6, 0x70, 0x17]"
    by (simp add: blank_ctx_def datasheet_client_def BMP280_PRESS_CALIBRATION_BASE_REG_ADDRESS_def)
  have lt: "length [0x70, 0x6B, 0x43, 0x67, 0x18, 0xFC :: u8] = 6"
    and lp: "length [0x7D, 0x8E, 0x43, 0xD6, 0xD0, 0x0B, 0x27, 0x0B, 0x8C, 0x00,
                     0xF9, 0xFF, 0x8C, 0x3C, 0xF8, 0xC6, 0x70, 0x17 :: u8] = 18"
    by simp_all
  have d: "dig_T blank_ctx = [0, 0, 0, 0]" "dig_P blank_ctx = [0, 0, 0, 0, 0, 0, 0, 0, 0, 0]"
    by (simp_all add: blank_ctx_def)
  have "read_bmp280_calibration_values LittleEndian blank_ctx [] =
          (Inr (blank_ctx\<lparr>dig_T := [0, 27504, 26435, - 1000],
                 dig_P := [0, 36477, - 10685, 3024, 2855, 140, - 7, 15500, - 14600, 6000]\<rparr>),
           [] @ [ReadBlockData BMP280_TEMP_CALIBRATION_BASE_REG_ADDRESS 6,
                 ReadBlockData BMP280_PRESS_CALIBRATION_BASE_REG_ADDRESS 18])"
    unfolding calibration_success [OF t lt p lp] d eval_T eval_P ..
  then show ?thesis
    by (simp add: blank_ctx_def datasheet_ctx_def
        BMP280_TEMP_CALIBRATION_BASE_REG_ADDRESS_def BMP280_PRESS_CALIBRATION_BASE_REG_ADDRESS_def)
qed

theorem calibration_values_parsed_witness:
  "ctx_wf blank_ctx
   \<and> read_block_reply (client blank_ctx) [] BMP280_TEMP_CALIBRATION_BASE_REG_ADDRESS 6
        = BlockData [0x70, 0x6B, 0x43, 0x67, 0x18, 0xFC]
   \<and> read_block_reply (client blank_ctx)
        [ReadBlockData BMP280_TEMP_CALIBRATION_BASE_REG_ADDRESS 6]
        BMP280_PRESS_CALIBRATION_BASE_REG_ADDRESS 18
        = BlockData [0x7D, 0x8E, 0x43, 0xD6, 0xD0, 0x0B, 0x27, 0x0B, 0x8C, 0x00,
                     0xF9, 0xFF, 0x8C, 0x3C, 0xF8, 0xC6, 0x70, 0x17]
   \<and> fst (read_bmp280_calibration_values LittleEndian blank_ctx []) = Inr datasheet_ctx
   \<and> map sint (dig_T datasheet_ctx) = [0, 27504, 26435, - 1000]
   \<and> map sint (dig_P datasheet_ctx)
       = [0, 36477, - 10685, 3024, 2855, 140, - 7, 15500, - 14600, 6000]"
proof -
  have w: "ctx_wf blank_ctx" by (simp add: ctx_wf_def blank_ctx_def)
  have t: "read_block_reply (client blank_ctx) [] BMP280_TEMP_CALIBRATION_BASE_REG_ADDRESS 6
             = BlockData [0x70, 0x6B, 0x43, 0x67, 0x18, 0xFC]"
    by (simp add: blank_ctx_def datasheet_client_def BMP280_TEMP_CALIBRATION_BASE_REG_ADDRESS_def)
  have p: "read_block_reply (client blank_ctx)
             ([] @ [ReadBlockData BMP280_TEMP_CALIBRATION_BASE_REG_ADDRESS 6])
             BMP280_PRESS_CALIBRATION_BASE_REG_ADDRESS 18
             = BlockData [0x7D, 0x8E, 0x43, 0xD6, 0xD0, 0x0B, 0x27, 0x0B, 0x8C, 0x00,
                          0xF9, 0xFF, 0x8C, 0x3C, 0xF8, 0xC6, 0x70, 0x17]"
    by (simp add: blank_ctx_def datasheet_client_def BMP280_PRESS_CALIBRATION_BASE_REG_ADDRESS_def)
  have v: "map sint (dig_T datasheet_ctx) = [0, 27504, 26435, - 1000]"
    "map sint (dig_P datasheet_ctx)
       = [0, 36477, - 10685, 3024, 2855, 140, - 7, 15500, - 14600, 6000]"
    by (simp_all add: datasheet_ctx_def)
  show ?thesis
    using calibration_values_parsed [OF w t _ p, of LittleEndian] w t p v
    by (simp add: datasheet_calibration)
qed

section \<open>Calibration channels\<close>

lemma read_temp_calibration_channel:
  "i < 3 \<Longrightarrow>
   bmp280_iio_read_from_channel bmp280 (bmp280_iio_channels ! i) h =
     (Some (Inr (IIO_VAL_INT (dig_T bmp280 ! (i + 1)))), h)"
proof -
  assume "i < 3"
  then consider "i = 0" | "i = 1" | "i = 2" by linarith
  then show ?thesis
    by cases
      (simp_all add: bmp280_iio_channels_def BMP280_CALIBR_CHANNNEL_def
        bmp280_iio_read_from_channel_def iio_channel_has_info_def BIT_def IIO_CHAN_INFO_RAW_def
        numeral_2_eq_2 numeral_3_eq_3)
qed

lemma read_press_calibration_channel:
  "5 \<le> i \<Longrightarrow> i \<le> 13 \<Longrightarrow>
   bmp280_iio_read_from_channel bmp280 (bmp280_iio_channels ! i) h =
     (Some (Inr (IIO_VAL_INT (ucast (dig_P bmp280 ! (i - 4))))), h)"
proof -
  assume "5 \<le> i" "i \<le> 13"
  then consider "i = 5" | "i = 6" | "i = 7" | "i = 8" | "i = 9" | "i = 10" | "i = 11"
    | "i = 12" | "i = 13" by linarith
  then show ?thesis
    by cases
      (simp_all add: bmp280_iio_channels_def BMP280_CALIBR_CHANNNEL_def
        bmp280_iio_read_from_channel_def iio_channel_has_info_def BIT_def IIO_CHAN_INFO_RAW_def)
qed

text \<open>
  Claim C9. Reading a calibration channel (positions 0 to 2 for temperature, 5 to 13 for
  pressure) makes no bus access: the bus is left as it was and the value is the constant
  held in the context. So the value read after any other channel read, a raw read
  included, is the value read before it.
\<close>

theorem calibration_channel_no_bus_access:
  assumes "i < 3 \<or> (5 \<le> i \<and> i \<le> 13)"
  shows "bmp280_iio_read_from_channel bmp280 (bmp280_iio_channels ! i) h =
           (Some (Inr (IIO_VAL_INT (if i < 3 then dig_T bmp280 ! (i + 1)
                                    else ucast (dig_P bmp280 ! (i - 4))))), h)
         \<and> fst (bmp280_iio_read_from_channel bmp280 (bmp280_iio_channels ! i)
                  (snd (bmp280_iio_read_from_channel bmp280 chan h)))
           = fst (bmp280_iio_read_from_channel bmp280 (bmp280_iio_channels ! i) h)"
  using assms
  by (auto simp: read_temp_calibration_channel read_press_calibration_channel)

theorem calibration_channel_no_bus_access_witness:
  "((6::nat) < 3 \<or> (5 \<le> (6::nat) \<and> (6::nat) \<le> 13))
   \<and> bmp280_iio_read_from_channel datasheet_ctx (bmp280_iio_channels ! 6) []
        = (Some (Inr (IIO_VAL_INT (- 10685))), [])
   \<and> fst (bmp280_iio_read_from_channel datasheet_ctx (bmp280_iio_channels ! 6)
            (snd (bmp280_iio_read_from_channel datasheet_ctx (bmp280_iio_channels ! 3) [])))
        = Some (Inr (IIO_VAL_INT (- 10685)))"
  using calibration_channel_no_bus_access [of 6 datasheet_ctx "[]" "bmp280_iio_channels ! 3"]
  by (simp add: datasheet_ctx_def)

section \<open>Temperature\<close>

lemma s32_wrap_eq: "signed_take_bit 31 k = s32_wrap k"
  by (simp add: s32_wrap_def signed_take_bit_eq_take_bit_shift take_bit_eq_mod)

lemma sint_add32: "sint (a + b :: s32) = s32_wrap (sint a + sint b)"
  by (simp add: sint_word_ariths s32_wrap_eq)
lemma sint_sub32: "sint (a - b :: s32) = s32_wrap (sint a - sint b)"
  by (simp add: sint_word_ariths s32_wrap_eq)
lemma sint_mul32: "sint (a * b :: s32) = s32_wrap (sint a * sint b)"
  by (simp add: sint_word_ariths s32_wrap_eq)
lemma sint_shr32: "sint (signed_drop_bit n (a :: s32)) = sint a div 2 ^ n"
  by (simp add: sint_signed_drop_bit_eq drop_bit_eq_div)
lemma sint_shl32: "sint (push_bit n (a :: s32)) = s32_wrap (sint a * 2 ^ n)"
proof -
  have "sint (push_bit n a) = signed_take_bit 31 (push_bit n (sint a))"
    by (simp only: signed_push_bit_eq) simp
  then show ?thesis
    by (simp only: s32_wrap_eq push_bit_eq_mult)
qed

lemma t_fine_int:
  "sint (compute_bmp280_t_fine raw_temp dT) =
     t_fine_s32 (sint raw_temp) (sint (dT ! 1)) (sint (dT ! 2)) (sint (dT ! 3))"
  by (simp only: compute_bmp280_t_fine_def t_fine_s32_def Let_def
      sint_add32 sint_sub32 sint_mul32 sint_shr32 sint_shl32)

lemma sint_5: "sint (5 :: s32) = 5" and sint_128: "sint (128 :: s32) = 128"
  by simp_all

lemma processed_temperature_int:
  "sint (signed_drop_bit 8 (compute_bmp280_t_fine raw_temp dT * 5 + 128)) =
     processed_temperature_s32 (sint raw_temp) (sint (dT ! 1)) (sint (dT ! 2)) (sint (dT ! 3))"
  by (simp only: processed_temperature_s32_def sint_add32 sint_mul32 sint_shr32 t_fine_int
      sint_5 sint_128)

lemma processed_temperature_data:
  "read_block_reply (client bmp280) h BMP280_TEMP_RAW_REG_ADDRESS 3 = BlockData [b0, b1, b2] \<Longrightarrow>
   read_bmp280_processed_temperature bmp280 h =
     (Inr (signed_drop_bit 8
             (compute_bmp280_t_fine
                (signed_drop_bit 4 (push_bit 16 (ucast b0) OR push_bit 8 (ucast b1) OR ucast b2))
                (dig_T bmp280) * 5 + 128)),
      h @ [ReadBlockData BMP280_TEMP_RAW_REG_ADDRESS 3])"
  by (simp add: read_bmp280_processed_temperature_def raw_temperature_data)

lemma cex_spec: "spec_processedTemperature (signed_drop_bit 4 0x7EED00) [0, 65535, - 32768, 0] = 20651"
  by code_simp

lemma cex_code: "signed_drop_bit 8
             (compute_bmp280_t_fine
                (signed_drop_bit 4 (push_bit 16 (ucast (0x7E::u8)) OR push_bit 8 (ucast (0xED :: u8)) OR ucast (0::u8)))
                [0, 65535, - 32768, 0] * 5 + 128) = - 20309"
  by code_simp

text \<open>
  Claim C1, as stated, fails: the code computes \<open>t_fine\<close> in \<^verbatim>\<open>s32\<close>, not \<^verbatim>\<open>s64\<close>. With
  \<open>dig_T1 = 65535\<close>, \<open>dig_T2 = -32768\<close> and the raw value 519888 the product of the first
  term leaves the 32-bit range; the code returns -20309 where the formula on \<^verbatim>\<open>s64\<close>
  gives 20651.
\<close>

theorem temperature_s64_counterexample:
  "fst (read_bmp280_processed_temperature overflow_ctx []) = Inr (- 20309)
   \<and> spec_processedTemperature (signed_drop_bit 4 0x7EED00) (dig_T overflow_ctx) = 20651
   \<and> fst (read_bmp280_processed_temperature overflow_ctx [])
       \<noteq> Inr (spec_processedTemperature (signed_drop_bit 4 0x7EED00) (dig_T overflow_ctx))"
proof -
  have r: "read_block_reply (client overflow_ctx) [] BMP280_TEMP_RAW_REG_ADDRESS 3
             = BlockData [0x7E, 0xED, 0x00]"
    by (simp add: overflow_ctx_def datasheet_client_def BMP280_TEMP_RAW_REG_ADDRESS_def)
  have d: "dig_T overflow_ctx = [0, 65535, - 32768, 0]"
    by (simp add: overflow_ctx_def)
  show ?thesis
    unfolding processed_temperature_data [OF r] d cex_spec cex_code by simp
qed

lemma s32_wrap_fits: "fits_s32 k \<Longrightarrow> s32_wrap k = k"
  by (simp add: s32_wrap_def fits_s32_def)

lemma s64_fits: "fits_s32 k \<Longrightarrow> signed_take_bit 63 k = k"
proof (rule signed_take_bit_int_eq_self)
  assume f: "fits_s32 k"
  have "- (2 ^ 63) \<le> - (2 ^ 31 :: int)" by simp
  then show "- (2 ^ 63) \<le> k" using f unfolding fits_s32_def by (meson order_trans)
  have "(2 ^ 31 :: int) \<le> 2 ^ 63" by simp
  then show "k < 2 ^ 63" using f unfolding fits_s32_def by (meson less_le_trans)
qed

lemma processed_temperature_s32_exact:
  assumes "s32_intermediates_fit raw T1 T2 T3"
  shows "processed_temperature_s32 raw T1 T2 T3
           = (t_fine_exact raw T1 T2 T3 * 5 + 128) div 2 ^ 8"
proof -
  note f = assms [unfolded s32_intermediates_fit_def]
  have w: "s32_wrap (T1 * 2 ^ 1) = T1 * 2 ^ 1"
    "s32_wrap (raw div 2 ^ 3 - T1 * 2 ^ 1) = raw div 2 ^ 3 - T1 * 2 ^ 1"
    "s32_wrap ((raw div 2 ^ 3 - T1 * 2 ^ 1) * T2) = (raw div 2 ^ 3 - T1 * 2 ^ 1) * T2"
    "s32_wrap (raw div 2 ^ 4 - T1) = raw div 2 ^ 4 - T1"
    "s32_wrap ((raw div 2 ^ 4 - T1) * (raw div 2 ^ 4 - T1))
       = (raw div 2 ^ 4 - T1) * (raw div 2 ^ 4 - T1)"
    "s32_wrap ((raw div 2 ^ 4 - T1) * (raw div 2 ^ 4 - T1) div 2 ^ 12 * T3)
       = (raw div 2 ^ 4 - T1) * (raw div 2 ^ 4 - T1) div 2 ^ 12 * T3"
    using f by (auto intro: s32_wrap_fits)
  have tf: "t_fine_s32 raw T1 T2 T3 = t_fine_exact raw T1 T2 T3"
  proof -
    have "t_fine_s32 raw T1 T2 T3 = s32_wrap (t_fine_exact raw T1 T2 T3)"
      by (simp only: t_fine_s32_def Let_def w t_fine_exact_def)
    then show ?thesis using f by (simp add: s32_wrap_fits)
  qed
  have g: "s32_wrap (t_fine_exact raw T1 T2 T3 * 5) = t_fine_exact raw T1 T2 T3 * 5"
    "s32_wrap (t_fine_exact raw T1 T2 T3 * 5 + 128) = t_fine_exact raw T1 T2 T3 * 5 + 128"
    using f by (auto intro: s32_wrap_fits)
  show ?thesis
    by (simp only: processed_temperature_s32_def tf g)
qed

lemma sint_add64: "sint (a + b :: s64) = signed_take_bit 63 (sint a + sint b)"
  by (simp add: sint_word_ariths)
lemma sint_sub64: "sint (a - b :: s64) = signed_take_bit 63 (sint a - sint b)"
  by (simp add: sint_word_ariths)
lemma sint_mul64: "sint (a * b :: s64) = signed_take_bit 63 (sint a * sint b)"
  by (simp add: sint_word_ariths)
lemma sint_shr64: "sint (signed_drop_bit n (a :: s64)) = sint a div 2 ^ n"
  by (simp add: sint_signed_drop_bit_eq drop_bit_eq_div)
lemma sint_shl64: "sint (push_bit n (a :: s64)) = signed_take_bit 63 (sint a * 2 ^ n)"
proof -
  have "sint (push_bit n a) = signed_take_bit 63 (push_bit n (sint a))"
    by (simp only: signed_push_bit_eq) simp
  then show ?thesis
    by (simp only: push_bit_eq_mult)
qed
lemma sint_scast_s32_s64: "sint (scast (x :: s32) :: s64) = sint x"
  by (rule sint_up_scast) (simp add: is_up)
lemma sint_5_64: "sint (5 :: s64) = 5" and sint_128_64: "sint (128 :: s64) = 128"
  by simp_all

lemma sint_ucast_s64_s32: "sint (ucast (y :: s64) :: s32) = signed_take_bit 31 (sint y)"
proof -
  have "sint (ucast y :: s32) = signed_take_bit 31 (uint y)"
    by (simp add: signed_ucast_eq)
  also have "\<dots> = signed_take_bit 31 (signed_take_bit 63 (uint y))"
    by (simp add: signed_take_bit_signed_take_bit)
  also have "\<dots> = signed_take_bit 31 (sint y)"
    by (simp add: sint_uint)
  finally show ?thesis .
qed

lemma fits_s32_div:
  assumes "fits_s32 k"
  shows "fits_s32 (k div 2 ^ 8)"
proof -
  have lo: "- (2 ^ 31) \<le> k" and hi: "k \<le> 2 ^ 31 - 1"
    using assms by (simp_all add: fits_s32_def)
  have "(- (2 ^ 31)) div 2 ^ 8 \<le> k div (2 ^ 8 :: int)"
    using lo by (intro zdiv_mono1) simp_all
  moreover have "k div (2 ^ 8 :: int) \<le> (2 ^ 31 - 1) div 2 ^ 8"
    using hi by (intro zdiv_mono1) simp_all
  ultimately show ?thesis
    by (simp add: fits_s32_def)
qed

lemma sint_inject: "sint (a :: s32) = sint b \<Longrightarrow> a = b"
  by (rule signed_word_eqI)

lemma spec_processedTemperature_exact:
  assumes "s32_intermediates_fit (sint raw) (sint (dT ! 1)) (sint (dT ! 2)) (sint (dT ! 3))"
  shows "sint (spec_processedTemperature raw dT)
           = (t_fine_exact (sint raw) (sint (dT ! 1)) (sint (dT ! 2)) (sint (dT ! 3)) * 5 + 128)
               div 2 ^ 8"
proof -
  let ?raw = "sint raw" and ?T1 = "sint (dT ! 1)" and ?T2 = "sint (dT ! 2)"
    and ?T3 = "sint (dT ! 3)"
  note f = assms [unfolded s32_intermediates_fit_def]
  have w: "signed_take_bit 63 (?T1 * 2 ^ 1) = ?T1 * 2 ^ 1"
    "signed_take_bit 63 (?raw div 2 ^ 3 - ?T1 * 2 ^ 1) = ?raw div 2 ^ 3 - ?T1 * 2 ^ 1"
    "signed_take_bit 63 ((?raw div 2 ^ 3 - ?T1 * 2 ^ 1) * ?T2)
       = (?raw div 2 ^ 3 - ?T1 * 2 ^ 1) * ?T2"
    "signed_take_bit 63 (?raw div 2 ^ 4 - ?T1) = ?raw div 2 ^ 4 - ?T1"
    "signed_take_bit 63 ((?raw div 2 ^ 4 - ?T1) * (?raw div 2 ^ 4 - ?T1))
       = (?raw div 2 ^ 4 - ?T1) * (?raw div 2 ^ 4 - ?T1)"
    "signed_take_bit 63 ((?raw div 2 ^ 4 - ?T1) * (?raw div 2 ^ 4 - ?T1) div 2 ^ 12 * ?T3)
       = (?raw div 2 ^ 4 - ?T1) * (?raw div 2 ^ 4 - ?T1) div 2 ^ 12 * ?T3"
    using f by (auto intro: s64_fits)
  have tf: "sint (spec_rawTemperatureTripleToFine raw dT) = t_fine_exact ?raw ?T1 ?T2 ?T3"
  proof -
    have "sint (spec_rawTemperatureTripleToFine raw dT)
            = signed_take_bit 63 (t_fine_exact ?raw ?T1 ?T2 ?T3)"
      by (simp only: spec_rawTemperatureTripleToFine_def Let_def sint_add64 sint_sub64
          sint_mul64 sint_shr64 sint_shl64 sint_scast_s32_s64 w t_fine_exact_def)
    then show ?thesis using f by (simp add: s64_fits)
  qed
  have g: "signed_take_bit 63 (t_fine_exact ?raw ?T1 ?T2 ?T3 * 5)
             = t_fine_exact ?raw ?T1 ?T2 ?T3 * 5"
    "signed_take_bit 63 (t_fine_exact ?raw ?T1 ?T2 ?T3 * 5 + 128)
       = t_fine_exact ?raw ?T1 ?T2 ?T3 * 5 + 128"
    using f by (auto intro: s64_fits)
  have "fits_s32 ((t_fine_exact ?raw ?T1 ?T2 ?T3 * 5 + 128) div 2 ^ 8)"
    using f by (intro fits_s32_div) simp
  then have h: "signed_take_bit 31 ((t_fine_exact ?raw ?T1 ?T2 ?T3 * 5 + 128) div 2 ^ 8)
                  = (t_fine_exact ?raw ?T1 ?T2 ?T3 * 5 + 128) div 2 ^ 8"
    using s32_wrap_fits by (simp add: s32_wrap_eq)
  show ?thesis
    by (simp only: spec_processedTemperature_def sint_ucast_s64_s32 sint_shr64 sint_add64
        sint_mul64 tf sint_5_64 sint_128_64 g h)
qed

lemma code_agrees_with_s64:
  assumes "s32_intermediates_fit (sint raw) (sint (dT ! 1)) (sint (dT ! 2)) (sint (dT ! 3))"
  shows "signed_drop_bit 8 (compute_bmp280_t_fine raw dT * 5 + 128)
           = spec_processedTemperature raw dT"
  by (rule sint_inject)
     (simp only: processed_temperature_int processed_temperature_s32_exact [OF assms]
        spec_processedTemperature_exact [OF assms])

text \<open>
  Claim C1, amended. For every register triple the bus delivers and every calibration
  set, the processed temperature is \<open>(t_fine * 5 + 128) >> 8\<close>, where \<open>t_fine\<close> is the sum
  of the two datasheet terms over the raw value shifted right by 4, with shifts of 3, 4,
  11, 12 and 14 bits and integer operations only, all of it in \<^verbatim>\<open>s32\<close>: each
  subtraction, multiplication, left shift and addition is reduced to the signed 32-bit
  range. Whenever no value on the way leaves that range, the result is the one of the
  formula on \<^verbatim>\<open>s64\<close>.
\<close>

theorem processed_temperature_s32_formula:
  assumes "read_block_reply (client bmp280) h BMP280_TEMP_RAW_REG_ADDRESS 3
             = BlockData [b0, b1, b2]"
  shows "\<exists>t. read_bmp280_processed_temperature bmp280 h
               = (Inr t, h @ [ReadBlockData BMP280_TEMP_RAW_REG_ADDRESS 3])
             \<and> sint t = processed_temperature_s32
                  (sint (push_bit 16 (ucast b0) OR push_bit 8 (ucast b1) OR ucast b2 :: s32)
                     div 2 ^ 4)
                  (sint (dig_T bmp280 ! 1)) (sint (dig_T bmp280 ! 2)) (sint (dig_T bmp280 ! 3))
             \<and> (s32_intermediates_fit
                  (sint (push_bit 16 (ucast b0) OR push_bit 8 (ucast b1) OR ucast b2 :: s32)
                     div 2 ^ 4)
                  (sint (dig_T bmp280 ! 1)) (sint (dig_T bmp280 ! 2)) (sint (dig_T bmp280 ! 3))
                \<longrightarrow> t = spec_processedTemperature
                        (signed_drop_bit 4
                           (push_bit 16 (ucast b0) OR push_bit 8 (ucast b1) OR ucast b2))
                        (dig_T bmp280))"
proof (intro exI conjI impI)
  let ?raw = "signed_drop_bit 4 (push_bit 16 (ucast b0) OR push_bit 8 (ucast b1) OR ucast b2 :: s32)"
  show "read_bmp280_processed_temperature bmp280 h
          = (Inr (signed_drop_bit 8 (compute_bmp280_t_fine ?raw (dig_T bmp280) * 5 + 128)),
             h @ [ReadBlockData BMP280_TEMP_RAW_REG_ADDRESS 3])"
    by (rule processed_temperature_data [OF assms])
  show "sint (signed_drop_bit 8 (compute_bmp280_t_fine ?raw (dig_T bmp280) * 5 + 128))
          = processed_temperature_s32
              (sint (push_bit 16 (ucast b0) OR push_bit 8 (ucast b1) OR ucast b2 :: s32)
                 div 2 ^ 4)
              (sint (dig_T bmp280 ! 1)) (sint (dig_T bmp280 ! 2)) (sint (dig_T bmp280 ! 3))"
    by (simp only: processed_temperature_int) (simp only: sint_shr32)
  assume "s32_intermediates_fit
            (sint (push_bit 16 (ucast b0) OR push_bit 8 (ucast b1) OR ucast b2 :: s32) div 2 ^ 4)
            (sint (dig_T bmp280 ! 1)) (sint (dig_T bmp280 ! 2)) (sint (dig_T bmp280 ! 3))"
  then have "s32_intermediates_fit (sint ?raw)
            (sint (dig_T bmp280 ! 1)) (sint (dig_T bmp280 ! 2)) (sint (dig_T bmp280 ! 3))"
    by (simp only: sint_shr32)
  then show "signed_drop_bit 8 (compute_bmp280_t_fine ?raw (dig_T bmp280) * 5 + 128)
               = spec_processedTemperature ?raw (dig_T bmp280)"
    by (rule code_agrees_with_s64)
qed

lemma datasheet_temperature_code:
  "signed_drop_bit 8
     (compute_bmp280_t_fine
        (signed_drop_bit 4 (push_bit 16 (ucast (0x7E::u8)) OR push_bit 8 (ucast (0xED :: u8))
                            OR ucast (0::u8)))
        [0, 27504, 26435, - 1000] * 5 + 128) = 2508"
  by code_simp

lemma datasheet_fit:
  "s32_intermediates_fit
     (sint (push_bit 16 (ucast (0x7E::u8)) OR push_bit 8 (ucast (0xED :: u8)) OR ucast (0::u8) :: s32)
        div 2 ^ 4) (sint (27504 :: s32)) (sint (26435 :: s32)) (sint (- 1000 :: s32))"
  by code_simp

theorem processed_temperature_s32_formula_witness:
  "read_block_reply (client datasheet_ctx) [] BMP280_TEMP_RAW_REG_ADDRESS 3
     = BlockData [0x7E, 0xED, 0x00]
   \<and> read_bmp280_processed_temperature datasheet_ctx []
       = (Inr 2508, [ReadBlockData BMP280_TEMP_RAW_REG_ADDRESS 3])
   \<and> processed_temperature_s32
         (sint (push_bit 16 (ucast (0x7E::u8)) OR push_bit 8 (ucast (0xED :: u8))
                OR ucast (0::u8) :: s32) div 2 ^ 4)
         (sint (dig_T datasheet_ctx ! 1)) (sint (dig_T datasheet_ctx ! 2))
         (sint (dig_T datasheet_ctx ! 3)) = 2508
   \<and> s32_intermediates_fit
         (sint (push_bit 16 (ucast (0x7E::u8)) OR push_bit 8 (ucast (0xED :: u8))
                OR ucast (0::u8) :: s32) div 2 ^ 4)
         (sint (dig_T datasheet_ctx ! 1)) (sint (dig_T datasheet_ctx ! 2))
         (sint (dig_T datasheet_ctx ! 3))
   \<and> spec_processedTemperature
         (signed_drop_bit 4
            (push_bit 16 (ucast (0x7E::u8)) OR push_bit 8 (ucast (0xED :: u8)) OR ucast (0::u8)))
         (dig_T datasheet_ctx) = 2508"
proof -
  have r: "read_block_reply (client datasheet_ctx) [] BMP280_TEMP_RAW_REG_ADDRESS 3
             = BlockData [0x7E, 0xED, 0x00]"
    by (simp add: datasheet_ctx_def datasheet_client_def BMP280_TEMP_RAW_REG_ADDRESS_def)
  have d: "dig_T datasheet_ctx = [0, 27504, 26435, - 1000]"
    by (simp add: datasheet_ctx_def)
  have e: "dig_T datasheet_ctx ! 1 = 27504" "dig_T datasheet_ctx ! 2 = 26435"
    "dig_T datasheet_ctx ! 3 = - 1000"
    by (simp_all add: d)
  have c: "read_bmp280_processed_temperature datasheet_ctx []
       = (Inr 2508, [] @ [ReadBlockData BMP280_TEMP_RAW_REG_ADDRESS 3])"
    unfolding processed_temperature_data [OF r] d datasheet_temperature_code ..
  have f: "s32_intermediates_fit
         (sint (push_bit 16 (ucast (0x7E::u8)) OR push_bit 8 (ucast (0xED :: u8))
                OR ucast (0::u8) :: s32) div 2 ^ 4)
         (sint (dig_T datasheet_ctx ! 1)) (sint (dig_T datasheet_ctx ! 2))
         (sint (dig_T datasheet_ctx ! 3))"
    unfolding e by (rule datasheet_fit)
  show ?thesis
    using processed_temperature_s32_formula [OF r] r c f by auto
qed

section \<open>Pressure\<close>

lemma processed_pressure_returns:
  "fst (read_bmp280_processed_pressure bmp280 h) \<noteq> None"
  by (auto simp: read_bmp280_processed_pressure_def Let_def div_s64_def
      split: prod.splits option.splits)

lemma processed_pressure_zero_divisor:
  assumes "read_block_reply (client bmp280) h BMP280_PRESS_RAW_REG_ADDRESS 6
             = BlockData [p1, p2, p3, t1, t2, t3]"
    and "pressure_var1
           (scast (compute_bmp280_t_fine
                     (signed_drop_bit 4 (push_bit 16 (ucast t1) OR push_bit 8 (ucast t2) OR ucast t3))
                     (dig_T bmp280)))
           (dig_P bmp280) = 0"
  shows "read_bmp280_processed_pressure bmp280 h
           = (Some (Inr 0), h @ [ReadBlockData BMP280_PRESS_RAW_REG_ADDRESS 6])"
  using block_read_data [OF assms(1), of "replicate 6 0"] assms(2)
  by (simp add: read_bmp280_processed_pressure_def Let_def)

text \<open>
  Claim C2. The pressure computation always returns: it never divides by zero. When the
  six bytes were read and the divisor \<^verbatim>\<open>var1\<close> (line 234) is 0, it returns the pressure 0
  with success and the division is not reached.
\<close>

theorem pressure_zero_divisor_guard:
  "fst (read_bmp280_processed_pressure bmp280 h) \<noteq> None
   \<and> (read_block_reply (client bmp280) h BMP280_PRESS_RAW_REG_ADDRESS 6
         = BlockData [p1, p2, p3, t1, t2, t3]
       \<and> pressure_var1
           (scast (compute_bmp280_t_fine
                     (signed_drop_bit 4 (push_bit 16 (ucast t1) OR push_bit 8 (ucast t2) OR ucast t3))
                     (dig_T bmp280)))
           (dig_P bmp280) = 0
       \<longrightarrow> read_bmp280_processed_pressure bmp280 h
             = (Some (Inr 0), h @ [ReadBlockData BMP280_PRESS_RAW_REG_ADDRESS 6]))"
  using processed_pressure_returns [of bmp280 h]
    processed_pressure_zero_divisor [of bmp280 h p1 p2 p3 t1 t2 t3]
  by blast

lemma pressure_var1_zero_P1: "dP ! 1 = 0 \<Longrightarrow> pressure_var1 t dP = 0"
  by (simp add: pressure_var1_def Let_def)

theorem pressure_zero_divisor_guard_witness:
  "read_block_reply (client blank_ctx) [] BMP280_PRESS_RAW_REG_ADDRESS 6
      = BlockData [0x65, 0x5A, 0xC0, 0x7E, 0xED, 0x00]
   \<and> pressure_var1
        (scast (compute_bmp280_t_fine
                  (signed_drop_bit 4 (push_bit 16 (ucast (0x7E :: u8)) OR push_bit 8 (ucast (0xED :: u8))
                                      OR ucast (0x00 :: u8)))
                  (dig_T blank_ctx)))
        (dig_P blank_ctx) = 0
   \<and> read_bmp280_processed_pressure blank_ctx []
        = (Some (Inr 0), [ReadBlockData BMP280_PRESS_RAW_REG_ADDRESS 6])"
proof -
  have r: "read_block_reply (client blank_ctx) [] BMP280_PRESS_RAW_REG_ADDRESS 6
      = BlockData [0x65, 0x5A, 0xC0, 0x7E, 0xED, 0x00]"
    by (simp add: blank_ctx_def datasheet_client_def BMP280_PRESS_RAW_REG_ADDRESS_def)
  have z: "pressure_var1
        (scast (compute_bmp280_t_fine
                  (signed_drop_bit 4 (push_bit 16 (ucast (0x7E :: u8)) OR push_bit 8 (ucast (0xED :: u8))
                                      OR ucast (0x00 :: u8)))
                  (dig_T blank_ctx)))
        (dig_P blank_ctx) = 0"
    by (rule pressure_var1_zero_P1) (simp add: blank_ctx_def)
  show ?thesis
    using pressure_zero_divisor_guard [of blank_ctx "[]" "0x65" "0x5A" "0xC0" "0x7E" "0xED" "0x00"]
      r z
    by simp
qed

section \<open>Bus failures\<close>

lemma of_nat_s32_neq:
  assumes "m < n" "n < 2 ^ 31"
  shows "(of_nat m :: s32) \<noteq> of_nat n"
proof
  assume "(of_nat m :: s32) = of_nat n"
  then have "unat (of_nat m :: s32) = unat (of_nat n :: s32)" by simp
  moreover have "m < 2 ^ 32" "n < 2 ^ 32" using assms by simp_all
  ultimately show False using assms(1) by (simp add: unat_of_nat)
qed

lemma of_nat_s32_nonneg:
  assumes "n < 2 ^ 31"
  shows "\<not> (of_nat n :: s32) <s 0"
proof -
  have "n < 2 ^ 32" using assms by simp
  then have "take_bit 32 n = n" by (simp add: take_bit_nat_eq_self)
  then have "sint (of_nat n :: s32) = signed_take_bit 31 (int n)"
    by (simp add: sint_uint unsigned_of_nat)
  also have "\<dots> = int n"
    using assms by (intro signed_take_bit_int_eq_self) simp_all
  finally show ?thesis by (simp add: word_sless_alt)
qed

lemma block_read_failed_rd:
  assumes "block_read_failed (read_block_reply cl h reg len) len" and "len < 2 ^ 31"
  shows "fst (fst (i2c_smbus_read_i2c_block_data cl reg len buf h)) \<noteq> of_nat len"
proof (cases "read_block_reply cl h reg len")
  case (BlockErr e)
  with assms(1) have "e <s 0" by (simp add: block_read_failed_def)
  with of_nat_s32_nonneg [OF assms(2)] have "e \<noteq> of_nat len" by auto
  then show ?thesis by (simp add: i2c_smbus_read_i2c_block_data_def BlockErr)
next
  case (BlockData bs)
  with assms(1) have "length bs < len" by (simp add: block_read_failed_def)
  then show ?thesis
    using of_nat_s32_neq [OF _ assms(2), of "length bs"]
    by (simp add: i2c_smbus_read_i2c_block_data_def BlockData Let_def)
qed

lemma raw_temperature_failed:
  "block_read_failed (read_block_reply (client bmp280) h BMP280_TEMP_RAW_REG_ADDRESS 3) 3 \<Longrightarrow>
   fst (read_bmp280_raw_temperature bmp280 h) = Inl EIO"
  using block_read_failed_rd [of "client bmp280" h BMP280_TEMP_RAW_REG_ADDRESS 3 "[0, 0, 0]"]
  by (auto simp: read_bmp280_raw_temperature_def Let_def split: prod.splits)

lemma raw_pressure_failed:
  "block_read_failed (read_block_reply (client bmp280) h BMP280_PRESS_RAW_REG_ADDRESS 3) 3 \<Longrightarrow>
   fst (read_bmp280_raw_pressure bmp280 h) = Inl EIO"
  using block_read_failed_rd [of "client bmp280" h BMP280_PRESS_RAW_REG_ADDRESS 3 "[0, 0, 0]"]
  by (auto simp: read_bmp280_raw_pressure_def Let_def split: prod.splits)

lemma processed_pressure_failed:
  "block_read_failed (read_block_reply (client bmp280) h BMP280_PRESS_RAW_REG_ADDRESS 6) 6 \<Longrightarrow>
   fst (read_bmp280_processed_pressure bmp280 h) = Some (Inl EIO)"
  using block_read_failed_rd [of "client bmp280" h BMP280_PRESS_RAW_REG_ADDRESS 6 "replicate 6 0"]
  by (auto simp: read_bmp280_processed_pressure_def Let_def split: prod.splits)

lemma processed_temperature_status:
  "fst (read_bmp280_raw_temperature bmp280 h) = Inl e \<Longrightarrow>
   fst (read_bmp280_processed_temperature bmp280 h) = Inl e"
  by (auto simp: read_bmp280_processed_temperature_def split: prod.splits sum.splits)

lemma calibration_first_failed:
  "block_read_failed
     (read_block_reply (client bmp280) h BMP280_TEMP_CALIBRATION_BASE_REG_ADDRESS 6) 6 \<Longrightarrow>
   fst (read_bmp280_calibration_values c bmp280 h) = Inl EIO"
  using block_read_failed_rd [of "client bmp280" h BMP280_TEMP_CALIBRATION_BASE_REG_ADDRESS 6
      "replicate 6 0"]
  by (auto simp: read_bmp280_calibration_values_def Let_def split: prod.splits)

lemma calibration_second_failed:
  "block_read_failed
     (read_block_reply (client bmp280)
        (h @ [ReadBlockData BMP280_TEMP_CALIBRATION_BASE_REG_ADDRESS 6])
        BMP280_PRESS_CALIBRATION_BASE_REG_ADDRESS 18) 18 \<Longrightarrow>
   fst (read_bmp280_calibration_values c bmp280 h) = Inl EIO"
  using block_read_failed_rd [of "client bmp280"
      "h @ [ReadBlockData BMP280_TEMP_CALIBRATION_BASE_REG_ADDRESS 6]"
      BMP280_PRESS_CALIBRATION_BASE_REG_ADDRESS 18 "replicate 18 0"]
  by (auto simp: read_bmp280_calibration_values_def Let_def split: prod.splits
      dest: block_read_result(1))

lemma initialize_wrong_id:
  "ucast (read_byte_reply (client bmp280) h BMP280_ID_REG) \<noteq> BMP280_ID \<Longrightarrow>
   fst (initialize_bmp280 bmp280 h) = Inl ENODEV"
  by (simp add: initialize_bmp280_def i2c_smbus_read_byte_data_def)

lemma setup_status:
  "fst (initialize_bmp280 (bmp280\<lparr>client := cl\<rparr>) h) = Inl e \<Longrightarrow>
     fst (setup_bmp280 c cl bmp280 h) = Inl e"
  "initialize_bmp280 (bmp280\<lparr>client := cl\<rparr>) h = (Inr u, h1) \<Longrightarrow>
   fst (read_bmp280_calibration_values c (bmp280\<lparr>client := cl\<rparr>) h1) = Inl e \<Longrightarrow>
     fst (setup_bmp280 c cl bmp280 h) = Inl e"
  by (auto simp: setup_bmp280_def Let_def split: prod.splits sum.splits)

text \<open>
  Claim C6, as stated, fails. On a bus where both configuration writes answer \<open>-121\<close>,
  \<^verbatim>\<open>initialize_bmp280\<close> returns success; and a block read that answers \<open>-6\<close> makes the
  raw temperature read return \<^verbatim>\<open>-EIO\<close>, which is \<open>-5\<close>, not the status of the bus.
\<close>

theorem bus_failure_not_unchanged_counterexample:
  "write_byte_reply (client (flaky_ctx 1)) [ReadByteData BMP280_ID_REG]
       BMP280_CONFIG_REG_ADDRESS 0xA0 = - 121
   \<and> initialize_bmp280 (flaky_ctx 1) []
       = (Inr (), [ReadByteData BMP280_ID_REG, WriteByteData BMP280_CONFIG_REG_ADDRESS 0xA0,
                   WriteByteData BMP280_CTRL_MEAS_REG_ADDRESS 0xB7])
   \<and> read_block_reply (client (flaky_ctx 0)) [] BMP280_TEMP_RAW_REG_ADDRESS 3 = BlockErr (- 6)
   \<and> fst (read_bmp280_raw_temperature (flaky_ctx 0) []) = Inl EIO
   \<and> neg_errno EIO \<noteq> - 6"
  by (simp add: flaky_ctx_def flaky_client_def datasheet_client_def initialize_bmp280_def
      i2c_smbus_read_byte_data_def i2c_smbus_write_byte_data_def BMP280_ID_REG_def BMP280_ID_def
      read_bmp280_raw_temperature_def i2c_smbus_read_i2c_block_data_def)

text \<open>
  Claim C6, amended. Every bus failure the core checks for is reported to the immediate
  caller, as a status of the driver's own: an identity read whose low byte is not the
  expected identity makes initialization return \<^verbatim>\<open>-ENODEV\<close>; a failed block read makes
  the calibration load, the raw reads and the processed reads return \<^verbatim>\<open>-EIO\<close>; the
  processed temperature read hands on the status of the raw read, and setup hands on the
  status of initialization and of the calibration load, unchanged.
\<close>

theorem bus_failures_reported:
  "(ucast (read_byte_reply (client bmp280) h BMP280_ID_REG) \<noteq> BMP280_ID
      \<longrightarrow> fst (initialize_bmp280 bmp280 h) = Inl ENODEV)
   \<and> (block_read_failed
        (read_block_reply (client bmp280) h BMP280_TEMP_CALIBRATION_BASE_REG_ADDRESS 6) 6
      \<longrightarrow> fst (read_bmp280_calibration_values c bmp280 h) = Inl EIO)
   \<and> (block_read_failed
        (read_block_reply (client bmp280)
           (h @ [ReadBlockData BMP280_TEMP_CALIBRATION_BASE_REG_ADDRESS 6])
           BMP280_PRESS_CALIBRATION_BASE_REG_ADDRESS 18) 18
      \<longrightarrow> fst (read_bmp280_calibration_values c bmp280 h) = Inl EIO)
   \<and> (block_read_failed (read_block_reply (client bmp280) h BMP280_TEMP_RAW_REG_ADDRESS 3) 3
      \<longrightarrow> fst (read_bmp280_raw_temperature bmp280 h) = Inl EIO
          \<and> fst (read_bmp280_processed_temperature bmp280 h) = Inl EIO)
   \<and> (block_read_failed (read_block_reply (client bmp280) h BMP280_PRESS_RAW_REG_ADDRESS 3) 3
      \<longrightarrow> fst (read_bmp280_raw_pressure bmp280 h) = Inl EIO)
   \<and> (block_read_failed (read_block_reply (client bmp280) h BMP280_PRESS_RAW_REG_ADDRESS 6) 6
      \<longrightarrow> fst (read_bmp280_processed_pressure bmp280 h) = Some (Inl EIO))
   \<and> (fst (initialize_bmp280 (bmp280\<lparr>client := cl\<rparr>) h) = Inl e
      \<longrightarrow> fst (setup_bmp280 c cl bmp280 h) = Inl e)
   \<and> (initialize_bmp280 (bmp280\<lparr>client := cl\<rparr>) h = (Inr (), h1)
        \<and> fst (read_bmp280_calibration_values c (bmp280\<lparr>client := cl\<rparr>) h1) = Inl e
      \<longrightarrow> fst (setup_bmp280 c cl bmp280 h) = Inl e)"
  using initialize_wrong_id [of bmp280 h] calibration_first_failed [of bmp280 h c]
    calibration_second_failed [of bmp280 h c] raw_temperature_failed [of bmp280 h]
    processed_temperature_status [of bmp280 h EIO] raw_pressure_failed [of bmp280 h]
    processed_pressure_failed [of bmp280 h]
    setup_status(1) [where ?bmp280.0 = bmp280 and cl = cl and h = h and e = e and c = c]
    setup_status(2) [where ?bmp280.0 = bmp280 and cl = cl and h = h and e = e and c = c
      and ?h1.0 = h1 and u = "()"]
  by blast

lemma flaky_initialize_3:
  "initialize_bmp280 (blank_ctx\<lparr>client := flaky_client 3\<rparr>) []
     = (Inr (), [ReadByteData BMP280_ID_REG, WriteByteData BMP280_CONFIG_REG_ADDRESS 0xA0,
                 WriteByteData BMP280_CTRL_MEAS_REG_ADDRESS 0xB7])"
  by (simp add: blank_ctx_def flaky_client_def datasheet_client_def initialize_bmp280_def
      i2c_smbus_read_byte_data_def i2c_smbus_write_byte_data_def BMP280_ID_REG_def BMP280_ID_def)

lemma flaky_failed:
  "n \<le> length h \<Longrightarrow> block_read_failed (read_block_reply (flaky_client n) h reg len) len"
  by (simp add: flaky_client_def block_read_failed_def word_sless_alt)

theorem bus_failures_reported_witness:
  "fst (initialize_bmp280 (flaky_ctx 0) []) = Inl ENODEV
   \<and> fst (read_bmp280_calibration_values LittleEndian (flaky_ctx 0) []) = Inl EIO
   \<and> fst (read_bmp280_calibration_values LittleEndian (flaky_ctx 1) []) = Inl EIO
   \<and> fst (read_bmp280_raw_temperature (flaky_ctx 0) []) = Inl EIO
   \<and> fst (read_bmp280_processed_temperature (flaky_ctx 0) []) = Inl EIO
   \<and> fst (read_bmp280_raw_pressure (flaky_ctx 0) []) = Inl EIO
   \<and> fst (read_bmp280_processed_pressure (flaky_ctx 0) []) = Some (Inl EIO)
   \<and> fst (setup_bmp280 LittleEndian (flaky_client 0) blank_ctx []) = Inl ENODEV
   \<and> fst (setup_bmp280 LittleEndian (flaky_client 3) blank_ctx []) = Inl EIO"
proof -
  have c0: "client (flaky_ctx 0) = flaky_client 0" and c1: "client (flaky_ctx 1) = flaky_client 1"
    by (simp_all add: flaky_ctx_def)
  have id0: "ucast (read_byte_reply (client (flaky_ctx 0)) [] BMP280_ID_REG) \<noteq> BMP280_ID"
    by (simp add: c0 flaky_client_def BMP280_ID_def)
  have id0': "ucast (read_byte_reply (client (blank_ctx\<lparr>client := flaky_client 0\<rparr>)) []
                       BMP280_ID_REG) \<noteq> BMP280_ID"
    by (simp add: flaky_client_def BMP280_ID_def)
  have f0: "\<And>reg len. block_read_failed (read_block_reply (client (flaky_ctx 0)) [] reg len) len"
    unfolding c0 by (rule flaky_failed) simp
  have f1: "block_read_failed
        (read_block_reply (client (flaky_ctx 1))
           ([] @ [ReadBlockData BMP280_TEMP_CALIBRATION_BASE_REG_ADDRESS 6])
           BMP280_PRESS_CALIBRATION_BASE_REG_ADDRESS 18) 18"
    unfolding c1 by (rule flaky_failed) simp
  have f3: "block_read_failed
        (read_block_reply (client (blank_ctx\<lparr>client := flaky_client 3\<rparr>))
           [ReadByteData BMP280_ID_REG, WriteByteData BMP280_CONFIG_REG_ADDRESS 0xA0,
            WriteByteData BMP280_CTRL_MEAS_REG_ADDRESS 0xB7]
           BMP280_TEMP_CALIBRATION_BASE_REG_ADDRESS 6) 6"
    by (simp add: flaky_failed)
  note a = bus_failures_reported [of "flaky_ctx 0" "[]" LittleEndian]
  note b = bus_failures_reported [of "flaky_ctx 1" "[]" LittleEndian]
  note i3 = bus_failures_reported
              [of "blank_ctx\<lparr>client := flaky_client 3\<rparr>"
                  "[ReadByteData BMP280_ID_REG, WriteByteData BMP280_CONFIG_REG_ADDRESS 0xA0,
                    WriteByteData BMP280_CTRL_MEAS_REG_ADDRESS 0xB7]" LittleEndian]
  note s0 = bus_failures_reported [of blank_ctx "[]" LittleEndian "flaky_client 0" ENODEV]
  note s3 = bus_failures_reported [of blank_ctx "[]" LittleEndian "flaky_client 3" EIO
              "[ReadByteData BMP280_ID_REG, WriteByteData BMP280_CONFIG_REG_ADDRESS 0xA0,
                WriteByteData BMP280_CTRL_MEAS_REG_ADDRESS 0xB7]"]
  have init0: "fst (initialize_bmp280 (blank_ctx\<lparr>client := flaky_client 0\<rparr>) []) = Inl ENODEV"
    using bus_failures_reported [of "blank_ctx\<lparr>client := flaky_client 0\<rparr>" "[]"] id0' by blast
  have cal3: "fst (read_bmp280_calibration_values LittleEndian
                     (blank_ctx\<lparr>client := flaky_client 3\<rparr>)
                     [ReadByteData BMP280_ID_REG, WriteByteData BMP280_CONFIG_REG_ADDRESS 0xA0,
                      WriteByteData BMP280_CTRL_MEAS_REG_ADDRESS 0xB7]) = Inl EIO"
    using i3 f3 by blast
  have 1: "fst (initialize_bmp280 (flaky_ctx 0) []) = Inl ENODEV"
    using a id0 by blast
  have 2: "fst (read_bmp280_calibration_values LittleEndian (flaky_ctx 0) []) = Inl EIO"
    using a f0 by blast
  have 3: "fst (read_bmp280_calibration_values LittleEndian (flaky_ctx 1) []) = Inl EIO"
    using b f1 by simp
  have 4: "fst (read_bmp280_raw_temperature (flaky_ctx 0) []) = Inl EIO
           \<and> fst (read_bmp280_processed_temperature (flaky_ctx 0) []) = Inl EIO"
    using a f0 by blast
  have 5: "fst (read_bmp280_raw_pressure (flaky_ctx 0) []) = Inl EIO"
    using a f0 by blast
  have 6: "fst (read_bmp280_processed_pressure (flaky_ctx 0) []) = Some (Inl EIO)"
    using a f0 by blast
  have 7: "fst (setup_bmp280 LittleEndian (flaky_client 0) blank_ctx []) = Inl ENODEV"
    using s0 init0 by blast
  have 8: "fst (setup_bmp280 LittleEndian (flaky_client 3) blank_ctx []) = Inl EIO"
    using s3 cal3 flaky_initialize_3 by blast
  show ?thesis
    using 1 2 3 4 5 6 7 8 by simp
qed

section \<open>The triggered sample\<close>

lemma read_from_channel_returns:
  "fst (bmp280_iio_read_from_channel bmp280 chan h) \<noteq> None"
proof -
  obtain rp hp where p: "read_bmp280_processed_pressure bmp280 h = (rp, hp)"
    by (metis surj_pair)
  with processed_pressure_returns [of bmp280 h] obtain sp where rp: "rp = Some sp"
    by (cases rp) auto
  obtain rt ht where t: "read_bmp280_processed_temperature bmp280 h = (rt, ht)"
    by (metis surj_pair)
  obtain r3 h3 where r3: "read_bmp280_raw_temperature bmp280 h = (r3, h3)"
    by (metis surj_pair)
  obtain r4 h4 where r4: "read_bmp280_raw_pressure bmp280 h = (r4, h4)"
    by (metis surj_pair)
  show ?thesis
    unfolding bmp280_iio_read_from_channel_def p rp t r3 r4
    by (simp split: sum.split)
qed

lemma length_bytes_of_u16 [simp]: "length (bytes_of_u16 c w) = 2"
  by (simp add: bytes_of_u16_def split: cpu_endianness.split)

lemma length_bytes_of_u32 [simp]: "length (bytes_of_u32 c w) = 4"
  by (simp add: bytes_of_u32_def split: cpu_endianness.split)

lemma length_cell:
  "storagebits (scan_type chan) = 16 \<or> storagebits (scan_type chan) = 32 \<Longrightarrow>
   length (cell c chan v) = storage_bytes chan"
  by (auto simp: cell_def storage_bytes_def)

lemma splice_twice:
  assumes "p + length a + n \<le> length data"
  shows "take (p + length a) (take p data @ a @ drop (p + length a) data) @ b
           @ drop (p + length a + n) (take p data @ a @ drop (p + length a) data)
         = take p data @ (a @ b) @ drop (p + (length a + n)) data"
proof -
  have p: "p \<le> length data" using assms by simp
  then have l: "length (take p data) = p" by simp
  have t: "take (p + length a) (take p data @ a @ drop (p + length a) data) = take p data @ a"
    using l by (simp add: take_append)
  have d: "drop (p + length a + n) (take p data @ a @ drop (p + length a) data)
             = drop (p + (length a + n)) data"
    using l by (simp add: drop_append ac_simps)
  show ?thesis by (simp only: t d) simp
qed

lemma length_splice:
  "p + length a \<le> length data \<Longrightarrow>
   length (take p data @ a @ drop (p + length a) data) = length data"
  by simp

text \<open>One turn of the loop on a channel whose read succeeded.\<close>

lemma scan_loop_step:
  assumes rd: "bmp280_iio_read_from_channel (priv dev) (channels dev ! i) h = (Some (Inr r), h1)"
    and w: "storagebits (scan_type (channels dev ! i)) = 16
            \<or> storagebits (scan_type (channels dev ! i)) = 32"
    and fit: "p + storage_bytes (channels dev ! i) \<le> length data"
  shows "scan_loop c dev (i # rest) data p h =
           scan_loop c dev rest
             (take p data @ cell c (channels dev ! i) (val_of r)
                @ drop (p + storage_bytes (channels dev ! i)) data)
             (p + storage_bytes (channels dev ! i)) h1"
  using w
proof
  assume b: "storagebits (scan_type (channels dev ! i)) = 16"
  then have sb: "storage_bytes (channels dev ! i) = 2" by (simp add: storage_bytes_def)
  have st: "store_bytes p (bytes_of_u16 c (ucast (val_of r))) data
              = Some (take p data @ bytes_of_u16 c (ucast (val_of r)) @ drop (p + 2) data)"
    using fit sb by (simp add: store_bytes_def)
  show ?thesis
    by (simp add: rd b sb st cell_def)
next
  assume b: "storagebits (scan_type (channels dev ! i)) = 32"
  then have sb: "storage_bytes (channels dev ! i) = 4" by (simp add: storage_bytes_def)
  have st: "store_bytes p (bytes_of_u32 c (val_of r)) data
              = Some (take p data @ bytes_of_u32 c (val_of r) @ drop (p + 4) data)"
    using fit sb by (simp add: store_bytes_def)
  show ?thesis
    by (simp add: rd b sb st cell_def)
qed

lemma scan_loop_resolve:
  assumes "\<forall>i\<in>set is. storagebits (scan_type (channels dev ! i)) = 16
                      \<or> storagebits (scan_type (channels dev ! i)) = 32"
    and "p + sum_list (map (\<lambda>i. storage_bytes (channels dev ! i)) is) \<le> length data"
  shows "scan_loop c dev is data p h =
           (case resolve_all (priv dev) (map ((!) (channels dev)) is) h of
              (None, h') \<Rightarrow> (GotoFreeData, h')
            | (Some vs, h') \<Rightarrow>
                (RanThrough
                   (take p data
                    @ concat (map2 (cell c) (map ((!) (channels dev)) is) vs)
                    @ drop (p + sum_list (map (\<lambda>i. storage_bytes (channels dev ! i)) is)) data)
                   (p + sum_list (map (\<lambda>i. storage_bytes (channels dev ! i)) is)), h'))"
  using assms
proof (induction "is" arbitrary: data p h)
  case Nil
  then show ?case by simp
next
  case (Cons i rest)
  let ?chan = "channels dev ! i"
  let ?n = "sum_list (map (\<lambda>i. storage_bytes (channels dev ! i)) rest)"
  obtain ro h1 where rd0: "bmp280_iio_read_from_channel (priv dev) ?chan h = (ro, h1)"
    by (metis surj_pair)
  with read_from_channel_returns [of "priv dev" ?chan h] obtain s where ro: "ro = Some s"
    by (cases ro) auto
  show ?case
  proof (cases s)
    case (Inl status)
    then show ?thesis by (simp add: rd0 ro)
  next
    case (Inr r)
    have rd: "bmp280_iio_read_from_channel (priv dev) ?chan h = (Some (Inr r), h1)"
      by (simp add: rd0 ro Inr)
    have w: "storagebits (scan_type ?chan) = 16 \<or> storagebits (scan_type ?chan) = 32"
      using Cons.prems(1) by simp
    have len: "length (cell c ?chan (val_of r)) = storage_bytes ?chan"
      by (rule length_cell [OF w])
    have fit: "p + storage_bytes ?chan + ?n \<le> length data"
      using Cons.prems(2) by simp
    let ?data = "take p data @ cell c ?chan (val_of r) @ drop (p + storage_bytes ?chan) data"
    have ld: "length ?data = length data"
      using length_splice [of p "cell c ?chan (val_of r)" data] fit len by simp
    have step: "scan_loop c dev (i # rest) data p h
                  = scan_loop c dev rest ?data (p + storage_bytes ?chan) h1"
      using fit by (intro scan_loop_step [OF rd w]) simp
    have ih: "scan_loop c dev rest ?data (p + storage_bytes ?chan) h1 =
           (case resolve_all (priv dev) (map ((!) (channels dev)) rest) h1 of
              (None, h') \<Rightarrow> (GotoFreeData, h')
            | (Some vs, h') \<Rightarrow>
                (RanThrough
                   (take (p + storage_bytes ?chan) ?data
                    @ concat (map2 (cell c) (map ((!) (channels dev)) rest) vs)
                    @ drop (p + storage_bytes ?chan + ?n) ?data)
                   (p + storage_bytes ?chan + ?n), h'))"
      using Cons.prems(1) fit ld by (intro Cons.IH) simp_all
    have sp: "\<And>b. take (p + storage_bytes ?chan) ?data @ b
                     @ drop (p + storage_bytes ?chan + ?n) ?data
                   = take p data @ (cell c ?chan (val_of r) @ b)
                     @ drop (p + (storage_bytes ?chan + ?n)) data"
      using splice_twice [of p "cell c ?chan (val_of r)" ?n data] fit len by simp
    show ?thesis
      unfolding step ih sp
      by (simp add: rd add.assoc split: prod.split option.split)
  qed
qed

lemma channels_length: "length bmp280_iio_channels = 16"
  by (simp add: bmp280_iio_channels_def)

lemma channels_storagebits:
  "\<forall>chan\<in>set bmp280_iio_channels.
     storagebits (scan_type chan) = 16 \<or> storagebits (scan_type chan) = 32"
  by (simp add: bmp280_iio_channels_def BMP280_CALIBR_CHANNNEL_def)

lemma channels_scan_index:
  "map scan_index bmp280_iio_channels = map int [0..<16]"
  by (simp add: bmp280_iio_channels_def BMP280_CALIBR_CHANNNEL_def upt_rec)

lemma set_bits_bound: "i \<in> set (set_bits m n) \<Longrightarrow> i < n"
  by (simp add: set_bits_def)

lemma set_bits_sorted: "sorted_wrt (<) (set_bits m n)"
  unfolding set_bits_def by (rule sorted_wrt_filter) simp

lemma registered_widths:
  assumes "registered dev"
  shows "\<forall>i\<in>set (set_bits m (num_channels dev)).
           storagebits (scan_type (channels dev ! i)) = 16
           \<or> storagebits (scan_type (channels dev ! i)) = 32"
proof
  fix i assume "i \<in> set (set_bits m (num_channels dev))"
  then have "i < length bmp280_iio_channels"
    using assms by (auto simp: registered_def dest: set_bits_bound)
  then have "bmp280_iio_channels ! i \<in> set bmp280_iio_channels" by (rule nth_mem)
  then show "storagebits (scan_type (channels dev ! i)) = 16
           \<or> storagebits (scan_type (channels dev ! i)) = 32"
    using channels_storagebits assms by (simp add: registered_def)
qed

lemma registered_scan_index:
  assumes "registered dev"
  shows "map scan_index (active_channels dev)
           = map int (set_bits (active_scan_mask dev) (num_channels dev))"
proof -
  have "\<And>i. i < 16 \<Longrightarrow> scan_index (bmp280_iio_channels ! i) = int i"
  proof -
    fix i :: nat assume i: "i < 16"
    then have "map scan_index bmp280_iio_channels ! i = map int [0..<16] ! i"
      by (simp only: channels_scan_index)
    then show "scan_index (bmp280_iio_channels ! i) = int i"
      using i by (simp add: channels_length)
  qed
  then show ?thesis
    using assms
    by (auto simp: active_channels_def registered_def channels_length dest: set_bits_bound)
qed

lemma resolve_all_length:
  "resolve_all bmp280 chans h = (Some vs, h') \<Longrightarrow> length vs = length chans"
  by (induction chans arbitrary: h vs)
     (auto split: prod.splits option.splits sum.splits)

lemma length_cells:
  assumes "length chans = length vs"
    and "\<forall>chan\<in>set chans. storagebits (scan_type chan) = 16
                          \<or> storagebits (scan_type chan) = 32"
  shows "length (concat (map2 (cell c) chans vs)) = sum_list (map storage_bytes chans)"
  using assms by (induction chans vs rule: list_induct2) (simp_all add: length_cell)

text \<open>The loop of the handler on a registered device, started as the handler starts it.\<close>

lemma handler_loop:
  assumes "registered dev"
    and "sum_list (map storage_bytes (active_channels dev)) \<le> scan_bytes dev"
  shows "scan_loop c dev (set_bits (active_scan_mask dev) (num_channels dev))
           (replicate (scan_bytes dev) 0) 0 h =
           (case resolve_all (priv dev) (active_channels dev) h of
              (None, h') \<Rightarrow> (GotoFreeData, h')
            | (Some vs, h') \<Rightarrow>
                (RanThrough
                   (concat (map2 (cell c) (active_channels dev) vs)
                    @ replicate
                        (scan_bytes dev - sum_list (map storage_bytes (active_channels dev))) 0)
                   (sum_list (map storage_bytes (active_channels dev))), h'))"
proof -
  let ?is = "set_bits (active_scan_mask dev) (num_channels dev)"
  have e: "sum_list (map (\<lambda>i. storage_bytes (channels dev ! i)) ?is)
             = sum_list (map storage_bytes (active_channels dev))"
    by (simp add: active_channels_def comp_def)
  have m: "map ((!) (channels dev)) ?is = active_channels dev"
    by (simp add: active_channels_def)
  have fit: "0 + sum_list (map (\<lambda>i. storage_bytes (channels dev ! i)) ?is)
               \<le> length (replicate (scan_bytes dev) (0 :: u8))"
    using assms(2) e by simp
  note L = scan_loop_resolve [OF registered_widths [OF assms(1), of "active_scan_mask dev"] fit,
      of c h]
  show ?thesis
    unfolding L m e by (simp split: prod.split option.split)
qed

lemma handler_result:
  assumes "registered dev"
    and "sum_list (map storage_bytes (active_channels dev)) \<le> scan_bytes dev"
  shows "bmp280_iio_trigger_handler k dev h =
           (if \<not> kzalloc_succeeds k then Some (IRQ_HANDLED, [NotifyDone], h)
            else case resolve_all (priv dev) (active_channels dev) h of
                   (None, h') \<Rightarrow> Some (IRQ_HANDLED, [Kfree, NotifyDone], h')
                 | (Some vs, h') \<Rightarrow>
                     Some (IRQ_HANDLED,
                           [Push (concat (map2 (cell (cpu k)) (active_channels dev) vs)
                                  @ replicate
                                      (scan_bytes dev
                                       - sum_list (map storage_bytes (active_channels dev))) 0),
                            Kfree, NotifyDone], h'))"
  unfolding bmp280_iio_trigger_handler_def Let_def handler_loop [OF assms]
  by (simp split: prod.split option.split)

text \<open>
  Claim C4. On a registered device (the declared channel table) with memory available,
  when every active channel resolves and the sample size of the IIO core has room for
  the cells, the handler walks the active channels in ascending position (the position
  of each is its declared \<open>scan_index\<close>), stores for each one cell of its storage
  width, 2 bytes for 16-bit and 4 bytes for 32-bit storage, in the byte order of the
  host, one after the other from the start of the zeroed buffer, and pushes that buffer.
  The bytes written, where \<^verbatim>\<open>data_ptr\<close> ends, are the sum of the storage widths of the
  active channels.
\<close>

theorem sample_buffer_layout:
  assumes "registered indio_dev" and "kzalloc_succeeds k"
    and "resolve_all (priv indio_dev) (active_channels indio_dev) h = (Some vs, h')"
    and "sum_list (map storage_bytes (active_channels indio_dev)) \<le> scan_bytes indio_dev"
  shows "scan_loop (cpu k) indio_dev
           (set_bits (active_scan_mask indio_dev) (num_channels indio_dev))
           (replicate (scan_bytes indio_dev) 0) 0 h
           = (RanThrough
                (concat (map2 (cell (cpu k)) (active_channels indio_dev) vs)
                 @ replicate
                     (scan_bytes indio_dev
                      - sum_list (map storage_bytes (active_channels indio_dev))) 0)
                (sum_list (map storage_bytes (active_channels indio_dev))), h')
         \<and> bmp280_iio_trigger_handler k indio_dev h
           = Some (IRQ_HANDLED,
                   [Push (concat (map2 (cell (cpu k)) (active_channels indio_dev) vs)
                          @ replicate
                              (scan_bytes indio_dev
                               - sum_list (map storage_bytes (active_channels indio_dev))) 0),
                    Kfree, NotifyDone], h')
         \<and> length (concat (map2 (cell (cpu k)) (active_channels indio_dev) vs))
           = sum_list (map storage_bytes (active_channels indio_dev))
         \<and> list_all2 (\<lambda>chan v. length (cell (cpu k) chan v) = storagebits (scan_type chan) div 8)
             (active_channels indio_dev) vs
         \<and> sorted_wrt (<) (set_bits (active_scan_mask indio_dev) (num_channels indio_dev))
         \<and> map scan_index (active_channels indio_dev)
           = map int (set_bits (active_scan_mask indio_dev) (num_channels indio_dev))"
proof -
  have w: "\<forall>chan\<in>set (active_channels indio_dev).
             storagebits (scan_type chan) = 16 \<or> storagebits (scan_type chan) = 32"
    using registered_widths [OF assms(1), of "active_scan_mask indio_dev"]
    by (simp add: active_channels_def)
  have l: "length (active_channels indio_dev) = length vs"
    using resolve_all_length [OF assms(3)] by simp
  have 1: "scan_loop (cpu k) indio_dev
           (set_bits (active_scan_mask indio_dev) (num_channels indio_dev))
           (replicate (scan_bytes indio_dev) 0) 0 h
           = (RanThrough
                (concat (map2 (cell (cpu k)) (active_channels indio_dev) vs)
                 @ replicate
                     (scan_bytes indio_dev
                      - sum_list (map storage_bytes (active_channels indio_dev))) 0)
                (sum_list (map storage_bytes (active_channels indio_dev))), h')"
    by (simp add: handler_loop [OF assms(1,4)] assms(3))
  have 2: "bmp280_iio_trigger_handler k indio_dev h
           = Some (IRQ_HANDLED,
                   [Push (concat (map2 (cell (cpu k)) (active_channels indio_dev) vs)
                          @ replicate
                              (scan_bytes indio_dev
                               - sum_list (map storage_bytes (active_channels indio_dev))) 0),
                    Kfree, NotifyDone], h')"
    by (simp add: handler_result [OF assms(1,4)] assms(2,3))
  have 3: "length (concat (map2 (cell (cpu k)) (active_channels indio_dev) vs))
           = sum_list (map storage_bytes (active_channels indio_dev))"
    by (rule length_cells [OF l w])
  have 4: "list_all2 (\<lambda>chan v. length (cell (cpu k) chan v) = storagebits (scan_type chan) div 8)
             (active_channels indio_dev) vs"
    using l w by (auto simp: list_all2_conv_all_nth length_cell storage_bytes_def [symmetric])
  show ?thesis
    using 1 2 3 4 set_bits_sorted registered_scan_index [OF assms(1)] by simp
qed

text \<open>
  Claim C7, amended. On a registered device whose sample size has room for the cells,
  every run of the handler returns \<^verbatim>\<open>IRQ_HANDLED\<close> and ends with exactly one
  \<^verbatim>\<open>iio_trigger_notify_done\<close>, also when the allocation fails (then it is the only
  call). When one active channel fails to resolve nothing is pushed; a buffer that is
  pushed holds the cells of all active channels. The failure does not reach the caller
  of the handler: the return value is the same in every case.
\<close>

theorem trigger_always_notified:
  assumes "registered indio_dev"
    and "sum_list (map storage_bytes (active_channels indio_dev)) \<le> scan_bytes indio_dev"
  shows "\<exists>evs h'. bmp280_iio_trigger_handler k indio_dev h = Some (IRQ_HANDLED, evs, h')
           \<and> count_list evs NotifyDone = 1 \<and> last evs = NotifyDone
           \<and> (\<not> kzalloc_succeeds k \<longrightarrow> evs = [NotifyDone])
           \<and> (fst (resolve_all (priv indio_dev) (active_channels indio_dev) h) = None
                \<longrightarrow> (\<forall>b. Push b \<notin> set evs))
           \<and> (\<forall>b. Push b \<in> set evs \<longrightarrow>
                (\<exists>vs. fst (resolve_all (priv indio_dev) (active_channels indio_dev) h) = Some vs
                   \<and> b = concat (map2 (cell (cpu k)) (active_channels indio_dev) vs)
                         @ replicate
                             (scan_bytes indio_dev
                              - sum_list (map storage_bytes (active_channels indio_dev))) 0))"
proof (cases "kzalloc_succeeds k")
  case False
  then show ?thesis by (simp add: handler_result [OF assms])
next
  case True
  obtain r h' where r: "resolve_all (priv indio_dev) (active_channels indio_dev) h = (r, h')"
    by (metis surj_pair)
  show ?thesis
    by (cases r) (simp_all add: handler_result [OF assms] True r)
qed

lemma u32_bytes_recombined:
  fixes w :: u32
  shows "push_bit 24 (ucast (ucast (drop_bit 24 w) :: u8))
         OR push_bit 16 (ucast (ucast (drop_bit 16 w) :: u8))
         OR push_bit 8 (ucast (ucast (drop_bit 8 w) :: u8)) OR ucast (ucast w :: u8) = w"
proof (rule bit_word_eqI)
  fix n :: nat
  assume "n < LENGTH(32)"
  then have n: "n < 32" by simp
  consider "n < 8" | "8 \<le> n" "n < 16" | "16 \<le> n" "n < 24" | "24 \<le> n" "n < 32"
    using n by linarith
  then show "bit (push_bit 24 (ucast (ucast (drop_bit 24 w) :: u8))
                  OR push_bit 16 (ucast (ucast (drop_bit 16 w) :: u8))
                  OR push_bit 8 (ucast (ucast (drop_bit 8 w) :: u8))
                  OR ucast (ucast w :: u8) :: u32) n = bit w n"
    by cases (auto simp: bit_simps)
qed

lemma s32_of_bytes_of_u32: "s32_of_bytes c (bytes_of_u32 c w) = w"
  using u32_bytes_recombined [of w]
  by (cases c) (simp_all add: s32_of_bytes_def bytes_of_u32_def)

lemma chan4: "bmp280_iio_channels ! 4 =
       \<lparr> type = IIO_TEMP, indexed = False, channel = 0, address = 0,
         info_mask_separate = BIT IIO_CHAN_INFO_PROCESSED, scan_index = 4,
         scan_type = \<lparr> sign = CHR ''s'', realbits = 32, storagebits = 32, shift = 0,
                       endianness = IIO_CPU \<rparr>,
         is_output = False \<rparr>"
  by (simp add: bmp280_iio_channels_def)

lemma read_chan4:
  "bmp280_iio_read_from_channel bmp280 (bmp280_iio_channels ! 4) h =
     (case read_bmp280_processed_temperature bmp280 h of
        (Inl status, h1) \<Rightarrow> (Some (Inl status), h1)
      | (Inr temp, h1) \<Rightarrow> (Some (Inr (IIO_VAL_FRACTIONAL temp 100)), h1))"
  by (simp add: chan4 bmp280_iio_read_from_channel_def iio_channel_has_info_def BIT_def
      IIO_CHAN_INFO_RAW_def IIO_CHAN_INFO_PROCESSED_def)

lemma upt_0_16: "[0..<16] = [0, 1, 2, 3, 4, 5, 6, 7, 8, 9, 10, 11, 12, 13, 14, 15]"
  by (simp add: upt_rec)

lemma set_bits_BIT_4: "set_bits (BIT 4) 16 = [4]"
  by (simp add: set_bits_def BIT_def upt_0_16 bit_0)

lemma set_bits_25: "set_bits 25 16 = [0, 3, 4]"
  by (simp add: set_bits_def upt_0_16 bit_0)

text \<open>
  Claim C8. With the processed temperature (position 4) as the only active channel and
  the sample sized to its storage width, a trigger on the bus on which the direct read
  of that channel succeeds pushes a buffer of exactly 4 bytes; read as a 32-bit integer
  in the byte order of the host they are the integer part the direct read returns (with
  divisor 100), and the bus ends as after the direct read.
\<close>

theorem processed_temperature_sample_matches_direct_read:
  assumes "registered indio_dev" and "kzalloc_succeeds k"
    and "active_scan_mask indio_dev = BIT 4"
    and "scan_bytes indio_dev = sum_list (map storage_bytes (active_channels indio_dev))"
    and "bmp280_iio_read_raw (priv indio_dev) (channels indio_dev ! 4) info h
           = (Some (Inr r), h1)"
  shows "\<exists>buf temp. bmp280_iio_trigger_handler k indio_dev h
                 = Some (IRQ_HANDLED, [Push buf, Kfree, NotifyDone], h1)
           \<and> length buf = 4 \<and> r = IIO_VAL_FRACTIONAL temp 100
           \<and> s32_of_bytes (cpu k) buf = temp"
proof -
  have ch: "channels indio_dev = bmp280_iio_channels" and n: "num_channels indio_dev = 16"
    using assms(1) by (simp_all add: registered_def channels_length)
  have ac: "active_channels indio_dev = [bmp280_iio_channels ! 4]"
    by (simp add: active_channels_def assms(3) n ch set_bits_BIT_4)
  have rd: "bmp280_iio_read_from_channel (priv indio_dev) (bmp280_iio_channels ! 4) h
              = (Some (Inr r), h1)"
    using assms(5) by (simp add: bmp280_iio_read_raw_def ch)
  then obtain temp where r: "r = IIO_VAL_FRACTIONAL temp 100"
    by (auto simp: read_chan4 split: prod.splits sum.splits)
  have res: "resolve_all (priv indio_dev) (active_channels indio_dev) h = (Some [temp], h1)"
    by (simp add: ac rd r)
  have sb: "storage_bytes (bmp280_iio_channels ! 4) = 4"
    by (simp add: chan4 storage_bytes_def)
  have tot: "sum_list (map storage_bytes (active_channels indio_dev)) = 4"
    by (simp add: ac sb)
  have c4: "cell (cpu k) (bmp280_iio_channels ! 4) temp = bytes_of_u32 (cpu k) temp"
    by (simp add: cell_def chan4)
  have "bmp280_iio_trigger_handler k indio_dev h
          = Some (IRQ_HANDLED, [Push (bytes_of_u32 (cpu k) temp), Kfree, NotifyDone], h1)"
  proof -
    have fit: "sum_list (map storage_bytes (active_channels indio_dev)) \<le> scan_bytes indio_dev"
      using assms(4) by simp
    show ?thesis
      unfolding handler_result [OF assms(1) fit] res
      using assms(2,4) by (simp add: ac sb c4)
  qed
  then show ?thesis
    using r by (simp add: s32_of_bytes_of_u32)
qed

subsection \<open>The handler on the example devices\<close>

lemma registered_dev: "registered (bmp280_iio_dev bmp280 m n)"
  by (simp add: registered_def bmp280_iio_dev_def)

lemma dev_fields:
  "scan_bytes (bmp280_iio_dev bmp280 m n) = n" "priv (bmp280_iio_dev bmp280 m n) = bmp280"
  by (simp_all add: bmp280_iio_dev_def)

lemma active_channels_BIT_4:
  "active_channels (bmp280_iio_dev bmp280 (BIT 4) n) = [bmp280_iio_channels ! 4]"
  by (simp add: active_channels_def bmp280_iio_dev_def channels_length set_bits_BIT_4)

lemma active_channels_25:
  "active_channels (bmp280_iio_dev bmp280 25 n)
     = [bmp280_iio_channels ! 0, bmp280_iio_channels ! 3, bmp280_iio_channels ! 4]"
  by (simp add: active_channels_def bmp280_iio_dev_def channels_length set_bits_25)

lemma storage_bytes_chan: 
  "storage_bytes (bmp280_iio_channels ! 0) = 2"
  "storage_bytes (bmp280_iio_channels ! 3) = 4"
  "storage_bytes (bmp280_iio_channels ! 4) = 4"
  by (simp_all add: storage_bytes_def bmp280_iio_channels_def BMP280_CALIBR_CHANNNEL_def)

lemma cell_chan:
  "cell c (bmp280_iio_channels ! 0) v = bytes_of_u16 c (ucast v)"
  "cell c (bmp280_iio_channels ! 3) v = bytes_of_u32 c v"
  "cell c (bmp280_iio_channels ! 4) v = bytes_of_u32 c v"
  by (simp_all add: cell_def bmp280_iio_channels_def BMP280_CALIBR_CHANNNEL_def)

lemma processed_temperature_trace:
  "snd (read_bmp280_processed_temperature bmp280 h)
     = h @ [ReadBlockData BMP280_TEMP_RAW_REG_ADDRESS 3]"
  using raw_temperature_trace [of bmp280 h]
  by (auto simp: read_bmp280_processed_temperature_def split: prod.splits sum.splits)

lemma datasheet_raw_temperature:
  "read_bmp280_raw_temperature datasheet_ctx h
     = (Inr 0x7EED00, h @ [ReadBlockData BMP280_TEMP_RAW_REG_ADDRESS 3])"
proof -
  have r: "read_block_reply (client datasheet_ctx) h BMP280_TEMP_RAW_REG_ADDRESS 3
             = BlockData [0x7E, 0xED, 0x00]"
    by (simp add: datasheet_ctx_def datasheet_client_def BMP280_TEMP_RAW_REG_ADDRESS_def)
  show ?thesis
    unfolding raw_temperature_data [OF r] by simp
qed

lemma datasheet_processed_temperature:
  "read_bmp280_processed_temperature datasheet_ctx h
     = (Inr 2508, h @ [ReadBlockData BMP280_TEMP_RAW_REG_ADDRESS 3])"
proof -
  have r: "read_block_reply (client datasheet_ctx) h BMP280_TEMP_RAW_REG_ADDRESS 3
             = BlockData [0x7E, 0xED, 0x00]"
    by (simp add: datasheet_ctx_def datasheet_client_def BMP280_TEMP_RAW_REG_ADDRESS_def)
  have d: "dig_T datasheet_ctx = [0, 27504, 26435, - 1000]"
    by (simp add: datasheet_ctx_def)
  show ?thesis
    unfolding processed_temperature_data [OF r] d datasheet_temperature_code ..
qed

lemma flaky_processed_temperature:
  "read_bmp280_processed_temperature (flaky_ctx 0) h
     = (Inl EIO, h @ [ReadBlockData BMP280_TEMP_RAW_REG_ADDRESS 3])"
proof -
  have "block_read_failed
          (read_block_reply (client (flaky_ctx 0)) h BMP280_TEMP_RAW_REG_ADDRESS 3) 3"
    by (simp add: flaky_ctx_def flaky_failed)
  then have "fst (read_bmp280_processed_temperature (flaky_ctx 0) h) = Inl EIO"
    by (intro processed_temperature_status raw_temperature_failed)
  then show ?thesis
    using processed_temperature_trace [of "flaky_ctx 0" h] by (simp add: prod_eq_iff)
qed

lemma bytes_2508: "bytes_of_u32 LittleEndian 2508 = [0xCC, 0x09, 0, 0]"
  by (simp add: bytes_of_u32_def)

lemma datasheet_handler:
  "bmp280_iio_trigger_handler little_endian_host (bmp280_iio_dev datasheet_ctx (BIT 4) 4) []
     = Some (IRQ_HANDLED, [Push [0xCC, 0x09, 0, 0], Kfree, NotifyDone],
             [ReadBlockData BMP280_TEMP_RAW_REG_ADDRESS 3])"
proof -
  let ?dev = "bmp280_iio_dev datasheet_ctx (BIT 4) 4"
  have fit: "sum_list (map storage_bytes (active_channels ?dev)) \<le> scan_bytes ?dev"
    by (simp add: active_channels_BIT_4 storage_bytes_chan dev_fields)
  have res: "resolve_all (priv ?dev) (active_channels ?dev) []
               = (Some [2508], [ReadBlockData BMP280_TEMP_RAW_REG_ADDRESS 3])"
    by (simp add: active_channels_BIT_4 dev_fields read_chan4
        datasheet_processed_temperature)
  show ?thesis
    unfolding handler_result [OF registered_dev fit] res
    by (simp add: little_endian_host_def active_channels_BIT_4 storage_bytes_chan
        dev_fields cell_chan bytes_2508)
qed

lemma flaky_handler:
  "bmp280_iio_trigger_handler little_endian_host (bmp280_iio_dev (flaky_ctx 0) (BIT 4) 4) []
     = Some (IRQ_HANDLED, [Kfree, NotifyDone], [ReadBlockData BMP280_TEMP_RAW_REG_ADDRESS 3])"
proof -
  let ?dev = "bmp280_iio_dev (flaky_ctx 0) (BIT 4) 4"
  have fit: "sum_list (map storage_bytes (active_channels ?dev)) \<le> scan_bytes ?dev"
    by (simp add: active_channels_BIT_4 storage_bytes_chan dev_fields)
  have res: "resolve_all (priv ?dev) (active_channels ?dev) []
               = (None, [ReadBlockData BMP280_TEMP_RAW_REG_ADDRESS 3])"
    by (simp add: active_channels_BIT_4 dev_fields read_chan4
        flaky_processed_temperature)
  show ?thesis
    unfolding handler_result [OF registered_dev fit] res
    by (simp add: little_endian_host_def)
qed

text \<open>
  Claim C7, as stated, fails in one part: the failure is not reported to the caller of
  the handler. With the processed temperature active, the handler on a bus where the
  read fails and the handler on the datasheet's sensor both return \<^verbatim>\<open>IRQ_HANDLED\<close>; they
  differ only in what was pushed.
\<close>

theorem trigger_failure_not_returned_counterexample:
  "fst (resolve_all (flaky_ctx 0) [bmp280_iio_channels ! 4] []) = None
   \<and> bmp280_iio_trigger_handler little_endian_host (bmp280_iio_dev (flaky_ctx 0) (BIT 4) 4) []
       = Some (IRQ_HANDLED, [Kfree, NotifyDone], [ReadBlockData BMP280_TEMP_RAW_REG_ADDRESS 3])
   \<and> bmp280_iio_trigger_handler little_endian_host (bmp280_iio_dev datasheet_ctx (BIT 4) 4) []
       = Some (IRQ_HANDLED, [Push [0xCC, 0x09, 0, 0], Kfree, NotifyDone],
               [ReadBlockData BMP280_TEMP_RAW_REG_ADDRESS 3])"
  by (simp add: datasheet_handler flaky_handler read_chan4 flaky_processed_temperature)

lemma host_fields:
  "cpu little_endian_host = LittleEndian" "kzalloc_succeeds little_endian_host"
  by (simp_all add: little_endian_host_def)

lemma fit_BIT_4:
  "sum_list (map storage_bytes (active_channels (bmp280_iio_dev bmp280 (BIT 4) 4)))
     \<le> scan_bytes (bmp280_iio_dev bmp280 (BIT 4) 4)"
  by (simp add: active_channels_BIT_4 storage_bytes_chan dev_fields)

lemma no_memory_handler:
  "bmp280_iio_trigger_handler (little_endian_host\<lparr>kzalloc_succeeds := False\<rparr>) dev h
     = Some (IRQ_HANDLED, [NotifyDone], h)"
  by (simp add: bmp280_iio_trigger_handler_def)

theorem trigger_always_notified_witness:
  "registered (bmp280_iio_dev (flaky_ctx 0) (BIT 4) 4)
   \<and> sum_list (map storage_bytes (active_channels (bmp280_iio_dev (flaky_ctx 0) (BIT 4) 4)))
       \<le> scan_bytes (bmp280_iio_dev (flaky_ctx 0) (BIT 4) 4)
   \<and> fst (resolve_all (priv (bmp280_iio_dev (flaky_ctx 0) (BIT 4) 4))
            (active_channels (bmp280_iio_dev (flaky_ctx 0) (BIT 4) 4)) []) = None
   \<and> bmp280_iio_trigger_handler little_endian_host (bmp280_iio_dev (flaky_ctx 0) (BIT 4) 4) []
       = Some (IRQ_HANDLED, [Kfree, NotifyDone], [ReadBlockData BMP280_TEMP_RAW_REG_ADDRESS 3])
   \<and> \<not> kzalloc_succeeds (little_endian_host\<lparr>kzalloc_succeeds := False\<rparr>)
   \<and> bmp280_iio_trigger_handler (little_endian_host\<lparr>kzalloc_succeeds := False\<rparr>)
         (bmp280_iio_dev datasheet_ctx (BIT 4) 4) []
       = Some (IRQ_HANDLED, [NotifyDone], [])
   \<and> bmp280_iio_trigger_handler little_endian_host (bmp280_iio_dev datasheet_ctx (BIT 4) 4) []
       = Some (IRQ_HANDLED, [Push [0xCC, 0x09, 0, 0], Kfree, NotifyDone],
               [ReadBlockData BMP280_TEMP_RAW_REG_ADDRESS 3])
   \<and> count_list [Push [0xCC, 0x09, 0, 0], Kfree, NotifyDone] NotifyDone = 1"
proof -
  have res: "fst (resolve_all (priv (bmp280_iio_dev (flaky_ctx 0) (BIT 4) 4))
            (active_channels (bmp280_iio_dev (flaky_ctx 0) (BIT 4) 4)) []) = None"
    by (simp add: active_channels_BIT_4 dev_fields read_chan4 flaky_processed_temperature)
  note a = trigger_always_notified
      [OF registered_dev [of "flaky_ctx 0" "BIT 4" 4] fit_BIT_4 [of "flaky_ctx 0"],
       of little_endian_host "[]"]
  note b = trigger_always_notified
      [OF registered_dev [of datasheet_ctx "BIT 4" 4] fit_BIT_4 [of datasheet_ctx],
       of "little_endian_host\<lparr>kzalloc_succeeds := False\<rparr>" "[]"]
  note c = trigger_always_notified
      [OF registered_dev [of datasheet_ctx "BIT 4" 4] fit_BIT_4 [of datasheet_ctx],
       of little_endian_host "[]"]
  show ?thesis
    using a b c res
    by (simp add: registered_dev fit_BIT_4 flaky_handler datasheet_handler no_memory_handler)
qed

theorem processed_temperature_sample_matches_direct_read_witness:
  "registered (bmp280_iio_dev datasheet_ctx (BIT 4) 4)
   \<and> kzalloc_succeeds little_endian_host
   \<and> active_scan_mask (bmp280_iio_dev datasheet_ctx (BIT 4) 4) = BIT 4
   \<and> scan_bytes (bmp280_iio_dev datasheet_ctx (BIT 4) 4)
       = sum_list (map storage_bytes (active_channels (bmp280_iio_dev datasheet_ctx (BIT 4) 4)))
   \<and> bmp280_iio_read_raw (priv (bmp280_iio_dev datasheet_ctx (BIT 4) 4))
         (channels (bmp280_iio_dev datasheet_ctx (BIT 4) 4) ! 4) IIO_CHAN_INFO_PROCESSED []
       = (Some (Inr (IIO_VAL_FRACTIONAL 2508 100)),
          [ReadBlockData BMP280_TEMP_RAW_REG_ADDRESS 3])
   \<and> bmp280_iio_trigger_handler little_endian_host (bmp280_iio_dev datasheet_ctx (BIT 4) 4) []
       = Some (IRQ_HANDLED, [Push [0xCC, 0x09, 0, 0], Kfree, NotifyDone],
               [ReadBlockData BMP280_TEMP_RAW_REG_ADDRESS 3])
   \<and> s32_of_bytes (cpu little_endian_host) [0xCC, 0x09, 0, 0] = 2508"
proof -
  let ?dev = "bmp280_iio_dev datasheet_ctx (BIT 4) 4"
  have m: "active_scan_mask ?dev = BIT 4" and ch: "channels ?dev = bmp280_iio_channels"
    by (simp_all add: bmp280_iio_dev_def)
  have sz: "scan_bytes ?dev = sum_list (map storage_bytes (active_channels ?dev))"
    by (simp add: active_channels_BIT_4 storage_bytes_chan dev_fields)
  have rd: "bmp280_iio_read_raw (priv ?dev) (channels ?dev ! 4) IIO_CHAN_INFO_PROCESSED []
              = (Some (Inr (IIO_VAL_FRACTIONAL 2508 100)),
                 [ReadBlockData BMP280_TEMP_RAW_REG_ADDRESS 3])"
    by (simp add: bmp280_iio_read_raw_def ch dev_fields read_chan4
        datasheet_processed_temperature)
  show ?thesis
    using processed_temperature_sample_matches_direct_read
            [OF registered_dev host_fields(2) m sz rd]
      m sz rd
    by (auto simp: registered_dev host_fields datasheet_handler)
qed

lemma chan0_datasheet:
  "bmp280_iio_read_from_channel datasheet_ctx (bmp280_iio_channels ! 0) h
     = (Some (Inr (IIO_VAL_INT 27504)), h)"
  using read_temp_calibration_channel [of 0 datasheet_ctx h]
  by (simp add: datasheet_ctx_def)

lemma resolve_25:
  "resolve_all (priv (bmp280_iio_dev datasheet_ctx 25 12))
     (active_channels (bmp280_iio_dev datasheet_ctx 25 12)) []
     = (Some [27504, 0x7EED00, 2508],
        [ReadBlockData BMP280_TEMP_RAW_REG_ADDRESS 3,
         ReadBlockData BMP280_TEMP_RAW_REG_ADDRESS 3])"
  by (simp add: active_channels_25 dev_fields chan0_datasheet read_chan3 read_chan4
      datasheet_raw_temperature datasheet_processed_temperature)

lemma cells_25:
  "concat (map2 (cell LittleEndian)
             (active_channels (bmp280_iio_dev datasheet_ctx 25 12)) [27504, 0x7EED00, 2508])
     = [0x70, 0x6B, 0x00, 0xED, 0x7E, 0x00, 0xCC, 0x09, 0x00, 0x00]"
  by (simp add: active_channels_25 cell_chan bytes_of_u16_def bytes_of_u32_def)

theorem sample_buffer_layout_witness:
  "registered (bmp280_iio_dev datasheet_ctx 25 12)
   \<and> kzalloc_succeeds little_endian_host
   \<and> resolve_all (priv (bmp280_iio_dev datasheet_ctx 25 12))
         (active_channels (bmp280_iio_dev datasheet_ctx 25 12)) []
       = (Some [27504, 0x7EED00, 2508],
          [ReadBlockData BMP280_TEMP_RAW_REG_ADDRESS 3,
           ReadBlockData BMP280_TEMP_RAW_REG_ADDRESS 3])
   \<and> sum_list (map storage_bytes (active_channels (bmp280_iio_dev datasheet_ctx 25 12)))
       \<le> scan_bytes (bmp280_iio_dev datasheet_ctx 25 12)
   \<and> sum_list (map storage_bytes (active_channels (bmp280_iio_dev datasheet_ctx 25 12))) = 10
   \<and> set_bits (active_scan_mask (bmp280_iio_dev datasheet_ctx 25 12))
         (num_channels (bmp280_iio_dev datasheet_ctx 25 12)) = [0, 3, 4]
   \<and> bmp280_iio_trigger_handler little_endian_host (bmp280_iio_dev datasheet_ctx 25 12) []
       = Some (IRQ_HANDLED,
               [Push [0x70, 0x6B, 0x00, 0xED, 0x7E, 0x00, 0xCC, 0x09, 0x00, 0x00, 0x00, 0x00],
                Kfree, NotifyDone],
               [ReadBlockData BMP280_TEMP_RAW_REG_ADDRESS 3,
                ReadBlockData BMP280_TEMP_RAW_REG_ADDRESS 3])"
proof -
  let ?dev = "bmp280_iio_dev datasheet_ctx 25 12"
  have tot: "sum_list (map storage_bytes (active_channels ?dev)) = 10"
    by (simp add: active_channels_25 storage_bytes_chan)
  have fit: "sum_list (map storage_bytes (active_channels ?dev)) \<le> scan_bytes ?dev"
    by (simp add: tot dev_fields)
  have sb: "set_bits (active_scan_mask ?dev) (num_channels ?dev) = [0, 3, 4]"
    by (simp add: bmp280_iio_dev_def channels_length set_bits_25)
  have pad: "replicate (scan_bytes ?dev - 10) (0 :: u8) = [0, 0]"
    by (simp add: dev_fields numeral_2_eq_2)
  note t = sample_buffer_layout [OF registered_dev host_fields(2) resolve_25 fit]
  have "bmp280_iio_trigger_handler little_endian_host ?dev []
       = Some (IRQ_HANDLED,
               [Push ([0x70, 0x6B, 0x00, 0xED, 0x7E, 0x00, 0xCC, 0x09, 0x00, 0x00] @ [0, 0]),
                Kfree, NotifyDone],
               [ReadBlockData BMP280_TEMP_RAW_REG_ADDRESS 3,
                ReadBlockData BMP280_TEMP_RAW_REG_ADDRESS 3])"
    using t unfolding host_fields(1) cells_25 tot pad by blast
  then show ?thesis
    using registered_dev [of datasheet_ctx 25 12] host_fields(2) resolve_25 fit tot sb by simp
qed

end
